theory Spec2Isabelle
  imports Complex_Main "HOL-Library.AList"
begin

section \<open>Data model\<close>

text \<open>
  Python floats are modelled as exact reals: every definition below computes what the
  source computes when no rounding occurs. Python dictionaries keep insertion order and
  have unique keys; they are association lists read with \<open>map_of\<close>, written with
  \<open>AList.update\<close> (replace in place, or append a new key at the end) and popped with
  \<open>AList.delete\<close>. An exception is the \<open>Inl\<close> side of a sum; the object state at the
  moment of the raise is not returned.
\<close>

datatype error =
    RiskViolation string
  | RuntimeError string
  | ZeroDivisionError
  | JSONDecodeError
  | OtherError string

text \<open>The fields of \<open>AppConfig\<close> that the trading code reads.\<close>

record config =
  risk_per_trade :: real
  max_global_exposure :: real
  max_symbol_exposure :: real
  max_daily_loss :: real
  max_drawdown :: real
  leverage_limit :: real
  spread_limit :: real
  volatility_limit :: real
  simulated_spread :: real
  simulated_slippage :: real
  magic_number :: string
  initial_balance :: real

definition default_config :: config where
  "default_config =
     \<lparr> risk_per_trade = 5 / 1000, max_global_exposure = 2, max_symbol_exposure = 1,
       max_daily_loss = 2 / 100, max_drawdown = 1 / 10, leverage_limit = 20,
       spread_limit = 1 / 2, volatility_limit = 2 / 100, simulated_spread = 2 / 10,
       simulated_slippage = 5 / 100, magic_number = ''ALGOBOT-001'',
       initial_balance = 30000 \<rparr>"

text \<open>A position is the dictionary \<open>{"size", "entry", "pnl"}\<close>.\<close>

record position =
  size_pos :: real
  entry :: real
  pnl :: real

type_synonym positions = "(string \<times> position) list"

record price_tick =
  tick_symbol :: string
  bid :: real
  ask :: real
  spread :: real
  volatility :: real

record order_request =
  symbol :: string
  side :: string
  size_req :: real
  price :: real
  stop_loss :: real
  take_profit :: "real option"
  client_id :: string

record order_result =
  success :: bool
  filled_size :: real
  avg_price :: "real option"
  reason :: "string option"
  order_id :: "string option"

definition OrderResult ::
  "bool \<Rightarrow> real \<Rightarrow> real option \<Rightarrow> string option \<Rightarrow> string option \<Rightarrow> order_result" where
  "OrderResult s f a r i =
     \<lparr> success = s, filled_size = f, avg_price = a, reason = r, order_id = i \<rparr>"

text \<open>The mutable fields of \<open>PaperBrokerClient\<close>.\<close>

record broker =
  connected :: bool
  balance :: real
  equity :: real
  margin_used :: real
  positions :: positions
  last_prices :: "(string \<times> real) list"

text \<open>The dictionary returned by \<open>get_account_info\<close>.\<close>

record account =
  acc_balance :: real
  acc_equity :: real
  acc_margin_used :: real
  acc_unrealized :: real

section \<open>Paper broker (broker.py)\<close>

text \<open>
  The loop of \<open>_mark_positions\<close>, with its two accumulators. The division by
  \<open>leverage_limit\<close> raises \<open>ZeroDivisionError\<close> on a zero divisor, at the first
  position visited.
\<close>

fun mark_loop ::
  "config \<Rightarrow> real \<Rightarrow> positions \<Rightarrow> real \<Rightarrow> real \<Rightarrow> error + (positions \<times> real \<times> real)" where
  "mark_loop cfg mid [] unrealized margin = Inr ([], unrealized, margin)"
| "mark_loop cfg mid ((sy, p) # ps) unrealized margin =
     (let p' = p\<lparr>pnl := (mid - entry p) * size_pos p\<rparr>;
          unrealized' = unrealized + pnl p'
      in if leverage_limit cfg = 0 then Inl ZeroDivisionError
         else (case mark_loop cfg mid ps unrealized'
                      (margin + \<bar>size_pos p' * mid\<bar> / leverage_limit cfg) of
                 Inl e \<Rightarrow> Inl e
               | Inr (ps', u, m) \<Rightarrow> Inr ((sy, p') # ps', u, m)))"

definition mark_positions :: "config \<Rightarrow> real \<Rightarrow> broker \<Rightarrow> error + broker" where
  "mark_positions cfg mid_price b =
     (case mark_loop cfg mid_price (positions b) 0 0 of
        Inl e \<Rightarrow> Inl e
      | Inr (ps', unrealized, margin) \<Rightarrow>
          Inr (b\<lparr>positions := ps', margin_used := margin,
                 equity := balance b + unrealized\<rparr>))"

text \<open>Python's \<open>sum(pos["pnl"] for pos in positions.values())\<close>.\<close>

definition sum_pnl :: "positions \<Rightarrow> real" where
  "sum_pnl ps = sum_list (map (\<lambda>(sy, p). pnl p) ps)"

definition get_account_info :: "config \<Rightarrow> broker \<Rightarrow> error + (broker \<times> account)" where
  "get_account_info cfg b =
     (case (case last_prices b of
              [] \<Rightarrow> Inr b
            | (sy, last_mid) # rest \<Rightarrow> mark_positions cfg last_mid b) of
        Inl e \<Rightarrow> Inl e
      | Inr b1 \<Rightarrow>
          (let unrealized = sum_pnl (positions b1);
               b2 = b1\<lparr>equity := balance b1 + unrealized\<rparr>
           in Inr (b2, \<lparr> acc_balance = balance b2, acc_equity = equity b2,
                         acc_margin_used = margin_used b2,
                         acc_unrealized = unrealized \<rparr>)))"

text \<open>Decimal rendering of \<open>int(time.time() * 1000)\<close> for the order id.\<close>

fun show_nat :: "nat \<Rightarrow> string" where
  "show_nat n =
     (if n < 10 then [''0123456789'' ! n]
      else show_nat (n div 10) @ [''0123456789'' ! (n mod 10)])"

definition show_int :: "int \<Rightarrow> string" where
  "show_int i = (if i < 0 then CHR ''-'' # show_nat (nat (- i)) else show_nat (nat i))"

text \<open>
  The fill price of \<open>submit_order\<close>: ask for a BUY, bid for anything else, moved by the
  slippage in the trade direction.
\<close>

definition fill_price_of :: "config \<Rightarrow> real \<Rightarrow> string \<Rightarrow> real" where
  "fill_price_of cfg mid sd =
     (let spread = simulated_spread cfg;
          bid = mid - spread / 2;
          ask = mid + spread / 2;
          fill_price = (if sd = ''BUY'' then ask else bid);
          slip = simulated_slippage cfg
      in fill_price + (if sd = ''BUY'' then slip else - slip))"

definition signed_size_of :: "order_request \<Rightarrow> real" where
  "signed_size_of order = (if side order = ''BUY'' then size_req order else - size_req order)"

text \<open>
  The position update of \<open>submit_order\<close> (the \<open>if\<close>/\<open>else\<close> on the direction):
  returns the realized PnL added to the balance and the updated position, before its
  PnL is recomputed.
\<close>

definition update_position :: "position \<Rightarrow> real \<Rightarrow> real \<Rightarrow> real \<times> position" where
  "update_position pos signed_size fill_price =
     (if size_pos pos = 0 \<or> (size_pos pos > 0 \<and> signed_size > 0)
         \<or> (size_pos pos < 0 \<and> signed_size < 0)
      then
        (let new_size = size_pos pos + signed_size;
             pos1 = (if size_pos pos \<noteq> 0
                     then pos\<lparr>entry := (entry pos * \<bar>size_pos pos\<bar> + fill_price * \<bar>signed_size\<bar>)
                                        / \<bar>new_size\<bar>\<rparr>
                     else pos)
         in (0, pos1\<lparr>size_pos := new_size\<rparr>))
      else
        (let closing_size = min \<bar>size_pos pos\<bar> \<bar>signed_size\<bar>;
             realized = (fill_price - entry pos) * closing_size
                          * (if size_pos pos > 0 then 1 else - 1);
             pos1 = pos\<lparr>size_pos := size_pos pos + signed_size\<rparr>
         in (realized, if size_pos pos1 = 0 then pos1\<lparr>entry := 0\<rparr>
                       else pos1\<lparr>entry := fill_price\<rparr>)))"

text \<open>
  The mid price of \<open>submit_order\<close>: the last known price of the symbol, or one fetched
  and remembered. \<open>fetch\<close> is the outcome of one call of \<open>_fetch_price_sync\<close> (the
  external price feed: open, high, low, close, or the exception it raises).
\<close>

definition lookup_mid ::
  "(error + real \<times> real \<times> real \<times> real) \<Rightarrow> broker \<Rightarrow> string \<Rightarrow> error + (real \<times> broker)" where
  "lookup_mid fetch b sy =
     (case map_of (last_prices b) sy of
        Some mid \<Rightarrow> Inr (mid, b)
      | None \<Rightarrow>
          (case fetch of
             Inl e \<Rightarrow> Inl e
           | Inr (opn, hi, lo, close) \<Rightarrow>
               Inr (close, b\<lparr>last_prices := AList.update sy close (last_prices b)\<rparr>)))"

text \<open>\<open>submit_order\<close>; \<open>now_ms\<close> is \<open>int(time.time() * 1000)\<close>.\<close>

definition submit_order ::
  "config \<Rightarrow> (error + real \<times> real \<times> real \<times> real) \<Rightarrow> int \<Rightarrow> broker \<Rightarrow> order_request
     \<Rightarrow> error + (broker \<times> order_result)" where
  "submit_order cfg fetch now_ms b order =
     (if \<not> connected b then Inr (b, OrderResult False 0 None (Some ''Disconnected'') None)
      else
        (case lookup_mid fetch b (symbol order) of
           Inl e \<Rightarrow> Inl e
         | Inr (mid, b1) \<Rightarrow>
             (let fill_price = fill_price_of cfg mid (side order);
                  pos0 = (case map_of (positions b1) (symbol order) of
                            Some p \<Rightarrow> p
                          | None \<Rightarrow> \<lparr> size_pos = 0, entry = fill_price, pnl = 0 \<rparr>);
                  signed_size = signed_size_of order;
                  (realized, pos1) = update_position pos0 signed_size fill_price;
                  b2 = b1\<lparr>balance := balance b1 + realized\<rparr>;
                  pos2 = pos1\<lparr>pnl := (mid - entry pos1) * size_pos pos1\<rparr>;
                  b3 = (if size_pos pos2 = 0
                        then b2\<lparr>positions := AList.delete (symbol order) (positions b2)\<rparr>
                        else b2\<lparr>positions := AList.update (symbol order) pos2 (positions b2)\<rparr>)
              in (case mark_positions cfg mid b3 of
                    Inl e \<Rightarrow> Inl e
                  | Inr b4 \<Rightarrow>
                      Inr (b4, OrderResult True (size_req order) (Some fill_price) None
                                 (Some (client_id order @ ''-'' @ show_int now_ms)))))))"

text \<open>
  One iteration of \<open>price_stream\<close> as far as the ledger is concerned: the observed
  close becomes the last price of the symbol and every position is marked to it.
\<close>

definition stream_step :: "config \<Rightarrow> string \<Rightarrow> real \<Rightarrow> broker \<Rightarrow> error + broker" where
  "stream_step cfg sy mid b =
     mark_positions cfg mid (b\<lparr>last_prices := AList.update sy mid (last_prices b)\<rparr>)"

text \<open>
  A run of the ledger: each event is a price observed by \<open>price_stream\<close> for the
  order's symbol, followed by that order. The run stops at the first exception.
\<close>

fun fill_sequence ::
  "config \<Rightarrow> (error + real \<times> real \<times> real \<times> real) \<Rightarrow> int \<Rightarrow> broker
     \<Rightarrow> (real \<times> order_request) list \<Rightarrow> error + broker" where
  "fill_sequence cfg fetch now_ms b [] = Inr b"
| "fill_sequence cfg fetch now_ms b ((mid, order) # evs) =
     (case stream_step cfg (symbol order) mid b of
        Inl e \<Rightarrow> Inl e
      | Inr b1 \<Rightarrow>
          (case submit_order cfg fetch now_ms b1 order of
             Inl e \<Rightarrow> Inl e
           | Inr (b2, res) \<Rightarrow> fill_sequence cfg fetch now_ms b2 evs))"

section \<open>Risk manager (risk.py)\<close>

record order_context =
  ctx_symbol :: string
  ctx_side :: string
  ctx_price :: real
  ctx_stop_loss :: real
  ctx_take_profit :: "real option"
  ctx_spread :: real
  ctx_volatility :: real

text \<open>The two attributes of \<open>RiskManager\<close>; \<open>None\<close> until the first observation.\<close>

record risk_state =
  daily_start_equity :: "real option"
  equity_peak :: "real option"

definition compute_position_size :: "config \<Rightarrow> real \<Rightarrow> real \<Rightarrow> real \<Rightarrow> error + real" where
  "compute_position_size cfg eq stop_distance prc =
     (if stop_distance \<le> 0 then Inl (RiskViolation ''Stop distance must be positive'')
      else
        (let risk_amount = eq * risk_per_trade cfg;
             sz = risk_amount / stop_distance
         in Inr (max sz 0)))"

text \<open>
  \<open>_check_circuit_breakers\<close>. The attributes are updated before either check raises, so
  the new risk state is returned on both sides. \<open>self.equity_peak or equity\<close> takes
  \<open>equity\<close> when the peak is \<open>None\<close> or zero.
\<close>

definition check_circuit_breakers ::
  "config \<Rightarrow> risk_state \<Rightarrow> real \<Rightarrow> risk_state \<times> (error + unit)" where
  "check_circuit_breakers cfg rs eq =
     (let rs1 = (if daily_start_equity rs = None
                 then rs\<lparr>daily_start_equity := Some eq, equity_peak := Some eq\<rparr>
                 else rs);
          peak = max (case equity_peak rs1 of
                        None \<Rightarrow> eq
                      | Some p \<Rightarrow> if p = 0 then eq else p) eq;
          rs2 = rs1\<lparr>equity_peak := Some peak\<rparr>;
          start = (case daily_start_equity rs2 of None \<Rightarrow> eq | Some d \<Rightarrow> d)
      in if eq \<le> start * (1 - max_daily_loss cfg)
         then (rs2, Inl (RiskViolation ''Daily loss limit reached; trading halted''))
         else if eq \<le> peak * (1 - max_drawdown cfg)
         then (rs2, Inl (RiskViolation ''Max drawdown breached; trading halted''))
         else (rs2, Inr ()))"

text \<open>Python's \<open>sum(abs(pos["size"] * price) for pos in positions.values())\<close>.\<close>

definition aggregate_notional :: "positions \<Rightarrow> real \<Rightarrow> real" where
  "aggregate_notional ps prc = sum_list (map (\<lambda>(sy, p). \<bar>size_pos p * prc\<bar>) ps)"

definition check_leverage_and_exposure ::
  "config \<Rightarrow> string \<Rightarrow> real \<Rightarrow> real \<Rightarrow> account \<Rightarrow> positions \<Rightarrow> error + unit" where
  "check_leverage_and_exposure cfg sy prc sz acct ps =
     (let notional = prc * sz
      in if leverage_limit cfg = 0 then Inl ZeroDivisionError
         else
           (let projected_margin = acc_margin_used acct + notional / leverage_limit cfg
            in if projected_margin > acc_equity acct
               then Inl (RiskViolation ''Insufficient margin for order'')
               else
                 (let current_symbol_notional =
                        \<bar>(case map_of ps sy of None \<Rightarrow> 0 | Some p \<Rightarrow> size_pos p) * prc\<bar>
                  in if current_symbol_notional + notional
                          > acc_equity acct * max_symbol_exposure cfg
                     then Inl (RiskViolation ''Per-symbol exposure limit exceeded'')
                     else if aggregate_notional ps prc + notional
                               > acc_equity acct * max_global_exposure cfg
                     then Inl (RiskViolation ''Global exposure limit exceeded'')
                     else Inr ())))"

definition validate_order ::
  "config \<Rightarrow> risk_state \<Rightarrow> order_context \<Rightarrow> account \<Rightarrow> positions
     \<Rightarrow> risk_state \<times> (error + real)" where
  "validate_order cfg rs ctx acct ps =
     (case check_circuit_breakers cfg rs (acc_equity acct) of
        (rs', Inl e) \<Rightarrow> (rs', Inl e)
      | (rs', Inr u) \<Rightarrow>
          (let stop_distance = \<bar>ctx_price ctx - ctx_stop_loss ctx\<bar>
           in case compute_position_size cfg (acc_equity acct) stop_distance (ctx_price ctx) of
                Inl e \<Rightarrow> (rs', Inl e)
              | Inr sz \<Rightarrow>
                  if sz \<le> 0
                  then (rs', Inl (RiskViolation ''Computed size is zero; reject order''))
                  else (case check_leverage_and_exposure cfg (ctx_symbol ctx) (ctx_price ctx)
                               sz acct ps of
                          Inl e \<Rightarrow> (rs', Inl e)
                        | Inr u' \<Rightarrow> (rs', Inr sz))))"

section \<open>Order handler (execution.py)\<close>

record execution_decision =
  signal :: string
  dec_stop_loss :: "real option"
  dec_take_profit :: "real option"

definition failed :: "string \<Rightarrow> order_result" where
  "failed msg = OrderResult False 0 None (Some msg) None"

text \<open>
  \<open>execute\<close>. Only \<open>RiskViolation\<close> is caught around \<open>validate_order\<close>; any other
  exception, and any exception of \<open>submit_order\<close>, propagates.
\<close>

definition execute ::
  "config \<Rightarrow> (error + real \<times> real \<times> real \<times> real) \<Rightarrow> int \<Rightarrow> risk_state \<Rightarrow> broker
     \<Rightarrow> price_tick \<Rightarrow> execution_decision \<Rightarrow> account \<Rightarrow> positions
     \<Rightarrow> error + (risk_state \<times> broker \<times> order_result)" where
  "execute cfg fetch now_ms rs b tick decision acct ps =
     (if signal decision = ''HOLD''
      then Inr (rs, b, OrderResult True 0 None (Some ''No action'') None)
      else
        (case dec_stop_loss decision of
           None \<Rightarrow> Inr (rs, b, failed ''Stop-loss required'')
         | Some sl \<Rightarrow>
             if spread tick > spread_limit cfg then Inr (rs, b, failed ''Spread too wide'')
             else if volatility tick > volatility_limit cfg
             then Inr (rs, b, failed ''Volatility too high'')
             else
               (let sd = (if signal decision = ''BUY'' then ''BUY'' else ''SELL'');
                    ctx = \<lparr> ctx_symbol = tick_symbol tick, ctx_side = sd,
                            ctx_price = (if sd = ''BUY'' then ask tick else bid tick),
                            ctx_stop_loss = sl, ctx_take_profit = dec_take_profit decision,
                            ctx_spread = spread tick, ctx_volatility = volatility tick \<rparr>
                in if sd = ''BUY'' \<and> ctx_stop_loss ctx \<ge> ctx_price ctx
                   then Inr (rs, b, failed ''Stop-loss must be below entry for BUY'')
                   else if sd = ''SELL'' \<and> ctx_stop_loss ctx \<le> ctx_price ctx
                   then Inr (rs, b, failed ''Stop-loss must be above entry for SELL'')
                   else
                     (case validate_order cfg rs ctx acct ps of
                        (rs', Inl (RiskViolation msg)) \<Rightarrow> Inr (rs', b, failed msg)
                      | (rs', Inl e) \<Rightarrow> Inl e
                      | (rs', Inr sz) \<Rightarrow>
                          (let order = \<lparr> symbol = tick_symbol tick, side = sd, size_req = sz,
                                         price = ctx_price ctx, stop_loss = sl,
                                         take_profit = dec_take_profit decision,
                                         client_id = magic_number cfg \<rparr>
                           in case submit_order cfg fetch now_ms b order of
                                Inl e \<Rightarrow> Inl e
                              | Inr (b', result) \<Rightarrow> Inr (rs', b', result))))))"

section \<open>State store (state.py)\<close>

text \<open>
  A snapshot is a JSON value. The file system maps a path to the file there: text, or
  bytes that are not UTF-8 (on which \<open>read_text\<close> raises \<open>UnicodeDecodeError\<close>). The JSON
  codec (\<open>json.dumps\<close> with \<open>indent=2\<close>, \<open>json.loads\<close>), \<open>Path.with_suffix\<close> and
  today's ISO date belong to the Python library and the environment: they are
  parameters. The lock serialises callers and has no sequential effect.
\<close>

datatype json =
    JNull
  | JBool bool
  | JNum real
  | JStr string
  | JArr "json list"
  | JObj "(string \<times> json) list"

datatype file_content = Text string | Undecodable

type_synonym file_system = "string \<Rightarrow> file_content option"

record state_manager =
  path :: string
  sm_initial_balance :: real

definition default_state :: "state_manager \<Rightarrow> string \<Rightarrow> json" where
  "default_state sm today =
     JObj [(''positions'', JObj []),
           (''equity'', JNum (sm_initial_balance sm)),
           (''balance'', JNum (sm_initial_balance sm)),
           (''unrealized'', JNum 0),
           (''margin_used'', JNum 0),
           (''daily_start_equity'', JNum (sm_initial_balance sm)),
           (''equity_peak'', JNum (sm_initial_balance sm)),
           (''trading_day'', JStr today)]"

text \<open>\<open>load\<close>: only \<open>json.JSONDecodeError\<close> is caught.\<close>

definition load ::
  "(string \<Rightarrow> error + json) \<Rightarrow> string \<Rightarrow> state_manager \<Rightarrow> file_system \<Rightarrow> error + json" where
  "load loads today sm fs =
     (case fs (path sm) of
        None \<Rightarrow> Inr (default_state sm today)
      | Some Undecodable \<Rightarrow> Inl (OtherError ''UnicodeDecodeError'')
      | Some (Text content) \<Rightarrow>
          (case loads content of
             Inr v \<Rightarrow> Inr v
           | Inl JSONDecodeError \<Rightarrow> Inr (default_state sm today)
           | Inl e \<Rightarrow> Inl e))"

text \<open>\<open>Path.replace\<close>: the target takes the source's content and the source disappears.\<close>

definition replace_file :: "string \<Rightarrow> string \<Rightarrow> file_system \<Rightarrow> error + file_system" where
  "replace_file src dst fs =
     (case fs src of
        None \<Rightarrow> Inl (OtherError ''FileNotFoundError'')
      | Some content \<Rightarrow> Inr ((fs(src := None))(dst \<mapsto> content)))"

definition persist ::
  "(json \<Rightarrow> string) \<Rightarrow> (string \<Rightarrow> string \<Rightarrow> string) \<Rightarrow> state_manager \<Rightarrow> file_system \<Rightarrow> json
     \<Rightarrow> error + file_system" where
  "persist dumps with_suffix sm fs state =
     (let temp_path = with_suffix (path sm) ''.tmp''
      in replace_file temp_path (path sm) (fs(temp_path \<mapsto> Text (dumps state))))"

section \<open>Notions used in the statements\<close>

text \<open>Every position with its PnL recomputed at a mid price.\<close>

definition marked :: "real \<Rightarrow> positions \<Rightarrow> positions" where
  "marked mid ps = map (\<lambda>(k, p). (k, p\<lparr>pnl := (mid - entry p) * size_pos p\<rparr>)) ps"

text \<open>The position an order starts from: the one in the map, or a flat one at the fill price.\<close>

definition start_position :: "broker \<Rightarrow> string \<Rightarrow> real \<Rightarrow> position" where
  "start_position b sy fill_price =
     (case map_of (positions b) sy of
        Some p \<Rightarrow> p
      | None \<Rightarrow> \<lparr> size_pos = 0, entry = fill_price, pnl = 0 \<rparr>)"

text \<open>The ledger of the flip scenario: long 10 at 2000, last price 2010.15.\<close>

definition scenario_mid :: real where
  "scenario_mid = 201015 / 100"

definition scenario_broker :: broker where
  "scenario_broker =
     \<lparr> connected = True, balance = 30000, equity = 30000, margin_used = 0,
       positions = [(''XAUUSD'', \<lparr> size_pos = 10, entry = 2000, pnl = 0 \<rparr>)],
       last_prices = [(''XAUUSD'', scenario_mid)] \<rparr>"

text \<open>The order of the flip scenario: SELL 15, filling at 2010.\<close>

definition scenario_sell :: order_request where
  "scenario_sell =
     \<lparr> symbol = ''XAUUSD'', side = ''SELL'', size_req = 15, price = 2010, stop_loss = 2020,
       take_profit = None, client_id = ''ALGOBOT-001'' \<rparr>"

text \<open>A price feed with no data: \<open>_fetch_price_sync\<close> raises.\<close>

definition no_feed :: "error + real \<times> real \<times> real \<times> real" where
  "no_feed = Inl (RuntimeError ''Empty price history from yfinance'')"

text \<open>A connected ledger with no position and no known price.\<close>

definition flat_broker :: broker where
  "flat_broker =
     \<lparr> connected = True, balance = 30000, equity = 30000, margin_used = 0,
       positions = [], last_prices = [] \<rparr>"

text \<open>
  What a caller observes of a fill: the exception, or the ledger after the call with the
  result's success flag, filled size and average price.
\<close>

definition fill_view :: "error + (broker \<times> order_result) \<Rightarrow> error + (broker \<times> bool \<times> real \<times> real option)" where
  "fill_view r =
     (case r of
        Inl e \<Rightarrow> Inl e
      | Inr (b, res) \<Rightarrow> Inr (b, success res, filled_size res, avg_price res))"

text \<open>
  Over a run of fills: the sum of fill price times absolute size, and the total absolute
  size. Their quotient is the size-weighted average fill price.
\<close>

definition fills_notional :: "config \<Rightarrow> (real \<times> order_request) list \<Rightarrow> real" where
  "fills_notional cfg evs =
     sum_list (map (\<lambda>(mid, order). fill_price_of cfg mid (side order) * \<bar>signed_size_of order\<bar>) evs)"

definition fills_size :: "(real \<times> order_request) list \<Rightarrow> real" where
  "fills_size evs = sum_list (map (\<lambda>(mid, order). \<bar>signed_size_of order\<bar>) evs)"

text \<open>Two signed sizes on the same side: both long or both short.\<close>

definition same_direction :: "real \<Rightarrow> real \<Rightarrow> bool" where
  "same_direction a s = ((a > 0 \<and> s > 0) \<or> (a < 0 \<and> s < 0))"


text \<open>A BUY of the given size, and a feed whose last close is 2000.\<close>

definition scenario_buy :: "real \<Rightarrow> order_request" where
  "scenario_buy q =
     \<lparr> symbol = ''XAUUSD'', side = ''BUY'', size_req = q, price = 2000, stop_loss = 1990,
       take_profit = None, client_id = ''ALGOBOT-001'' \<rparr>"

definition feed_2000 :: "error + real \<times> real \<times> real \<times> real" where
  "feed_2000 = Inr (1999, 2001, 1998, 2000)"

text \<open>The two rejections the statements name.\<close>

definition daily_loss :: error where
  "daily_loss = RiskViolation ''Daily loss limit reached; trading halted''"

definition global_exposure :: error where
  "global_exposure = RiskViolation ''Global exposure limit exceeded''"

text \<open>The size of the sizing step: \<open>equity * risk_per_trade / stop_distance\<close>.\<close>

definition approved_size :: "config \<Rightarrow> order_context \<Rightarrow> account \<Rightarrow> real" where
  "approved_size cfg ctx acct =
     acc_equity acct * risk_per_trade cfg / \<bar>ctx_price ctx - ctx_stop_loss ctx\<bar>"

text \<open>A risk manager before its first observation, and one whose day started at 30000.\<close>

definition fresh_risk :: risk_state where
  "fresh_risk = \<lparr> daily_start_equity = None, equity_peak = None \<rparr>"

definition day_risk :: risk_state where
  "day_risk = \<lparr> daily_start_equity = Some 30000, equity_peak = Some 30000 \<rparr>"

text \<open>An account with the given balance, unrealized PnL and margin used.\<close>

definition account_of :: "real \<Rightarrow> real \<Rightarrow> real \<Rightarrow> account" where
  "account_of bal unrealized margin =
     \<lparr> acc_balance = bal, acc_equity = bal + unrealized, acc_margin_used = margin,
       acc_unrealized = unrealized \<rparr>"

text \<open>One long unit of XAUUSD bought at 2000, and a position in another symbol.\<close>

definition long_one :: "real \<Rightarrow> positions" where
  "long_one unrealized = [(''XAUUSD'', \<lparr> size_pos = 1, entry = 2000, pnl = unrealized \<rparr>)]"

definition other_symbol :: positions where
  "other_symbol = [(''EURUSD'', \<lparr> size_pos = 1000, entry = 1, pnl = 0 \<rparr>)]"

text \<open>
  The aggregate notional in the words of the specification's claim: each position valued
  at its own (entry) price. Compare \<open>aggregate_notional\<close>, which is what the source
  computes.
\<close>

definition spec_aggregate_notional :: "positions \<Rightarrow> real" where
  "spec_aggregate_notional ps = sum_list (map (\<lambda>(sy, p). \<bar>size_pos p * entry p\<bar>) ps)"

text \<open>A BUY context for XAUUSD at a price with a stop.\<close>

definition buy_ctx :: "real \<Rightarrow> real \<Rightarrow> order_context" where
  "buy_ctx prc stop =
     \<lparr> ctx_symbol = ''XAUUSD'', ctx_side = ''BUY'', ctx_price = prc, ctx_stop_loss = stop,
       ctx_take_profit = None, ctx_spread = 2 / 10, ctx_volatility = 0 \<rparr>"

text \<open>The order context \<open>execute\<close> builds: entry at the ask for a BUY, at the bid otherwise.\<close>

definition entry_ctx :: "price_tick \<Rightarrow> execution_decision \<Rightarrow> real \<Rightarrow> order_context" where
  "entry_ctx tick decision sl =
     \<lparr> ctx_symbol = tick_symbol tick,
       ctx_side = (if signal decision = ''BUY'' then ''BUY'' else ''SELL''),
       ctx_price = (if signal decision = ''BUY'' then ask tick else bid tick),
       ctx_stop_loss = sl, ctx_take_profit = dec_take_profit decision,
       ctx_spread = spread tick, ctx_volatility = volatility tick \<rparr>"

text \<open>The spread, volatility and stop-side gates of \<open>execute\<close> all pass.\<close>

definition gates_pass :: "config \<Rightarrow> price_tick \<Rightarrow> execution_decision \<Rightarrow> real \<Rightarrow> bool" where
  "gates_pass cfg tick decision sl =
     (\<not> spread tick > spread_limit cfg \<and> \<not> volatility tick > volatility_limit cfg
      \<and> (if signal decision = ''BUY'' then sl < ask tick else bid tick < sl))"

text \<open>A quote around a mid of 2000, and a decision with a stop-loss.\<close>

definition tick_2000 :: "real \<Rightarrow> real \<Rightarrow> price_tick" where
  "tick_2000 spr vol =
     \<lparr> tick_symbol = ''XAUUSD'', bid = 2000 - spr / 2, ask = 2000 + spr / 2,
       spread = spr, volatility = vol \<rparr>"

definition decide :: "string \<Rightarrow> real \<Rightarrow> execution_decision" where
  "decide sg sl = \<lparr> signal = sg, dec_stop_loss = Some sl, dec_take_profit = None \<rparr>"


text \<open>A field of a JSON object.\<close>

definition json_get :: "json \<Rightarrow> string \<Rightarrow> json option" where
  "json_get j k = (case j of JObj kvs \<Rightarrow> map_of kvs k | _ \<Rightarrow> None)"

text \<open>A state manager on \<open>state.json\<close> with an initial balance of 30000.\<close>

definition state_file :: state_manager where
  "state_file = \<lparr> path = ''state.json'', sm_initial_balance = 30000 \<rparr>"

text \<open>An empty directory.\<close>

definition no_files :: file_system where
  "no_files = (\<lambda>p. None)"

section \<open>Properties of the paper broker\<close>

lemma mark_loop_Inr:
  "mark_loop cfg mid ps u m = Inr (ps', u', m') \<Longrightarrow>
     ps' = marked mid ps \<and> u' = u + sum_pnl ps'"
proof (induction ps arbitrary: u m ps' u' m')
  case Nil
  then show ?case by (simp add: marked_def sum_pnl_def)
next
  case (Cons a ps)
  obtain k p where a: "a = (k, p)" by (cases a)
  show ?case
  proof (cases "leverage_limit cfg = 0")
    case True
    with Cons.prems a show ?thesis by simp
  next
    case False
    let ?p = "p\<lparr>pnl := (mid - entry p) * size_pos p\<rparr>"
    from Cons.prems a False obtain ps1 where
      r: "mark_loop cfg mid ps (u + pnl ?p) (m + \<bar>size_pos ?p * mid\<bar> / leverage_limit cfg) = Inr (ps1, u', m')"
      and ps': "ps' = (k, ?p) # ps1"
      by (auto simp: Let_def split: sum.splits)
    from Cons.IH[OF r] have "ps1 = marked mid ps" "u' = u + pnl ?p + sum_pnl ps1" by simp_all
    with ps' a show ?thesis by (simp add: marked_def sum_pnl_def)
  qed
qed

lemma mark_loop_total:
  "leverage_limit cfg \<noteq> 0 \<Longrightarrow> \<exists>ps' u' m'. mark_loop cfg mid ps u m = Inr (ps', u', m')"
proof (induction ps arbitrary: u m)
  case Nil
  then show ?case by simp
next
  case (Cons a ps)
  obtain k p where a: "a = (k, p)" by (cases a)
  let ?p = "p\<lparr>pnl := (mid - entry p) * size_pos p\<rparr>"
  from Cons.IH[OF Cons.prems] obtain ps1 u1 m1 where
    "mark_loop cfg mid ps (u + pnl ?p) (m + \<bar>size_pos ?p * mid\<bar> / leverage_limit cfg) = Inr (ps1, u1, m1)"
    by blast
  with Cons.prems a show ?case by (simp add: Let_def)
qed

lemma map_of_marked:
  "map_of (marked mid ps) k =
     map_option (\<lambda>p. p\<lparr>pnl := (mid - entry p) * size_pos p\<rparr>) (map_of ps k)"
  by (induction ps) (auto simp: marked_def)

lemma mark_positions_Inr:
  assumes "mark_positions cfg mid b = Inr b'"
  shows "positions b' = marked mid (positions b)"
    and "equity b' = balance b' + sum_pnl (positions b')"
    and "balance b' = balance b"
    and "connected b' = connected b"
    and "last_prices b' = last_prices b"
proof -
  from assms obtain ps' u' m' where
    l: "mark_loop cfg mid (positions b) 0 0 = Inr (ps', u', m')"
    and b': "b' = b\<lparr>positions := ps', margin_used := m', equity := balance b + u'\<rparr>"
    by (auto simp: mark_positions_def split: sum.splits)
  from mark_loop_Inr[OF l] have "ps' = marked mid (positions b)" "u' = sum_pnl ps'" by simp_all
  with b' show "positions b' = marked mid (positions b)"
    and "equity b' = balance b' + sum_pnl (positions b')"
    and "balance b' = balance b"
    and "connected b' = connected b"
    and "last_prices b' = last_prices b"
    by simp_all
qed

lemma mark_positions_total:
  "leverage_limit cfg \<noteq> 0 \<Longrightarrow> \<exists>b'. mark_positions cfg mid b = Inr b'"
  using mark_loop_total[of cfg mid "positions b" 0 0]
  by (auto simp: mark_positions_def)

lemma lookup_mid_Inr:
  assumes "lookup_mid fetch b sy = Inr (mid, b1)"
  shows "positions b1 = positions b" and "balance b1 = balance b"
    and "connected b1 = connected b" and "map_of (last_prices b1) sy = Some mid"
  using assms
  by (auto simp: lookup_mid_def update_conv' split: option.splits sum.splits)


lemma submit_order_unfold:
  assumes conn: "connected b"
    and mid: "lookup_mid fetch b (symbol order) = Inr (mid, b1)"
    and u: "update_position (start_position b (symbol order) (fill_price_of cfg mid (side order)))
              (signed_size_of order) (fill_price_of cfg mid (side order)) = (realized, pos1)"
  shows "submit_order cfg fetch now_ms b order =
           (case mark_positions cfg mid
                   (if size_pos pos1 = 0
                    then b1\<lparr>balance := balance b + realized,
                            positions := AList.delete (symbol order) (positions b)\<rparr>
                    else b1\<lparr>balance := balance b + realized,
                            positions := AList.update (symbol order)
                              (pos1\<lparr>pnl := (mid - entry pos1) * size_pos pos1\<rparr>) (positions b)\<rparr>) of
              Inl e \<Rightarrow> Inl e
            | Inr b4 \<Rightarrow>
                Inr (b4, OrderResult True (size_req order)
                           (Some (fill_price_of cfg mid (side order))) None
                           (Some (client_id order @ ''-'' @ show_int now_ms))))"
proof -
  note l = lookup_mid_Inr[OF mid]
  have u': "update_position
              (case map_of (positions b) (symbol order) of
                 Some p \<Rightarrow> p
               | None \<Rightarrow> \<lparr> size_pos = 0, entry = fill_price_of cfg mid (side order), pnl = 0 \<rparr>)
              (signed_size_of order) (fill_price_of cfg mid (side order)) = (realized, pos1)"
    using u by (simp add: start_position_def)
  show ?thesis
    unfolding submit_order_def Let_def
    by (simp add: conn mid u' l(1,2))
qed

lemma submit_order_Inr:
  assumes conn: "connected b"
    and mid: "lookup_mid fetch b (symbol order) = Inr (mid, b1)"
    and u: "update_position (start_position b (symbol order) (fill_price_of cfg mid (side order)))
              (signed_size_of order) (fill_price_of cfg mid (side order)) = (realized, pos1)"
    and sub: "submit_order cfg fetch now_ms b order = Inr (b', res)"
  shows "balance b' = balance b + realized"
    and "map_of (positions b') (symbol order) =
           (if size_pos pos1 = 0 then None
            else Some (pos1\<lparr>pnl := (mid - entry pos1) * size_pos pos1\<rparr>))"
    and "equity b' = balance b' + sum_pnl (positions b')"
    and "res = OrderResult True (size_req order) (Some (fill_price_of cfg mid (side order))) None
                 (Some (client_id order @ ''-'' @ show_int now_ms))"
proof -
  let ?b3 = "if size_pos pos1 = 0
             then b1\<lparr>balance := balance b + realized,
                     positions := AList.delete (symbol order) (positions b)\<rparr>
             else b1\<lparr>balance := balance b + realized,
                     positions := AList.update (symbol order)
                       (pos1\<lparr>pnl := (mid - entry pos1) * size_pos pos1\<rparr>) (positions b)\<rparr>"
  from sub have c: "(case mark_positions cfg mid ?b3 of
              Inl e \<Rightarrow> Inl e
            | Inr b4 \<Rightarrow>
                Inr (b4, OrderResult True (size_req order)
                           (Some (fill_price_of cfg mid (side order))) None
                           (Some (client_id order @ ''-'' @ show_int now_ms)))) = Inr (b', res)"
    unfolding submit_order_unfold[OF conn mid u] .
  then have m: "mark_positions cfg mid ?b3 = Inr b'"
    and r: "res = OrderResult True (size_req order) (Some (fill_price_of cfg mid (side order))) None
                 (Some (client_id order @ ''-'' @ show_int now_ms))"
    by (auto split: sum.splits)
  note mk = mark_positions_Inr[OF m]
  show "balance b' = balance b + realized"
    using mk(3) by (simp split: if_splits)
  show "map_of (positions b') (symbol order) =
           (if size_pos pos1 = 0 then None
            else Some (pos1\<lparr>pnl := (mid - entry pos1) * size_pos pos1\<rparr>))"
    using mk(1) by (simp add: map_of_marked update_conv' delete_conv')
  show "equity b' = balance b' + sum_pnl (positions b')" by (rule mk(2))
  show "res = OrderResult True (size_req order) (Some (fill_price_of cfg mid (side order))) None
                 (Some (client_id order @ ''-'' @ show_int now_ms))" by (rule r)
qed

lemma submit_order_total:
  assumes conn: "connected b" and mid: "lookup_mid fetch b (symbol order) = Inr (mid, b1)"
    and lev: "leverage_limit cfg \<noteq> 0"
  shows "\<exists>b' res. submit_order cfg fetch now_ms b order = Inr (b', res)"
proof -
  obtain realized pos1 where
    u: "update_position (start_position b (symbol order) (fill_price_of cfg mid (side order)))
              (signed_size_of order) (fill_price_of cfg mid (side order)) = (realized, pos1)"
    by (cases "update_position (start_position b (symbol order) (fill_price_of cfg mid (side order)))
              (signed_size_of order) (fill_price_of cfg mid (side order))")
  let ?b3 = "if size_pos pos1 = 0
             then b1\<lparr>balance := balance b + realized,
                     positions := AList.delete (symbol order) (positions b)\<rparr>
             else b1\<lparr>balance := balance b + realized,
                     positions := AList.update (symbol order)
                       (pos1\<lparr>pnl := (mid - entry pos1) * size_pos pos1\<rparr>) (positions b)\<rparr>"
  from mark_positions_total[OF lev] obtain b4 where "mark_positions cfg mid ?b3 = Inr b4"
    by blast
  then show ?thesis
    unfolding submit_order_unfold[OF conn mid u] by simp
qed


lemma update_position_opposing:
  assumes "(size_pos pos > 0 \<and> s < 0) \<or> (size_pos pos < 0 \<and> s > 0)"
  shows "update_position pos s fp =
           ((fp - entry pos) * min \<bar>size_pos pos\<bar> \<bar>s\<bar> * sgn (size_pos pos),
            if size_pos pos + s = 0 then pos\<lparr>size_pos := 0, entry := 0\<rparr>
            else pos\<lparr>size_pos := size_pos pos + s, entry := fp\<rparr>)"
  using assms by (auto simp: update_position_def Let_def)

text \<open>
  C1. An order whose signed size opposes the position of its symbol (reducing, closing or
  flipping it) is filled; the balance grows by the realized PnL
  \<open>(fill - entry) * min |old| |signed| * sign old\<close>, the new size is \<open>old + signed\<close>,
  the position leaves the map when the new size is zero, and otherwise its entry price
  is the fill price, with no blended basis.
\<close>

theorem submit_order_opposing:
  assumes conn: "connected b"
    and mid: "lookup_mid fetch b (symbol order) = Inr (mid, b1)"
    and pos: "map_of (positions b) (symbol order) = Some pos"
    and opp: "(size_pos pos > 0 \<and> signed_size_of order < 0)
                \<or> (size_pos pos < 0 \<and> signed_size_of order > 0)"
    and lev: "leverage_limit cfg \<noteq> 0"
  shows "\<exists>b' res. submit_order cfg fetch now_ms b order = Inr (b', res)
           \<and> balance b' = balance b
                 + (fill_price_of cfg mid (side order) - entry pos)
                     * min \<bar>size_pos pos\<bar> \<bar>signed_size_of order\<bar> * sgn (size_pos pos)
           \<and> map_of (positions b') (symbol order) =
                 (if size_pos pos + signed_size_of order = 0 then None
                  else Some \<lparr> size_pos = size_pos pos + signed_size_of order,
                              entry = fill_price_of cfg mid (side order),
                              pnl = (mid - fill_price_of cfg mid (side order))
                                      * (size_pos pos + signed_size_of order) \<rparr>)"
proof -
  let ?fp = "fill_price_of cfg mid (side order)"
  let ?s = "signed_size_of order"
  from submit_order_total[OF conn mid lev] obtain b' res where
    sub: "submit_order cfg fetch now_ms b order = Inr (b', res)" by blast
  have sp: "start_position b (symbol order) ?fp = pos"
    using pos by (simp add: start_position_def)
  have u: "update_position (start_position b (symbol order) ?fp) ?s ?fp =
             ((?fp - entry pos) * min \<bar>size_pos pos\<bar> \<bar>?s\<bar> * sgn (size_pos pos),
              if size_pos pos + ?s = 0 then pos\<lparr>size_pos := 0, entry := 0\<rparr>
              else pos\<lparr>size_pos := size_pos pos + ?s, entry := ?fp\<rparr>)"
    unfolding sp by (rule update_position_opposing[OF opp])
  note r = submit_order_Inr[OF conn mid u sub]
  have "map_of (positions b') (symbol order) =
          (if size_pos pos + ?s = 0 then None
           else Some \<lparr> size_pos = size_pos pos + ?s, entry = ?fp,
                       pnl = (mid - ?fp) * (size_pos pos + ?s) \<rparr>)"
    using r(2) by (cases pos) simp
  with sub r(1) show ?thesis by blast
qed

text \<open>
  The scenario of the specification: long 10 at 2000, SELL 15 filling at 2010 realizes
  100 and leaves a short position of 5 with entry 2010.
\<close>

theorem submit_order_opposing_witness:
  "connected scenario_broker
   \<and> lookup_mid no_feed scenario_broker (symbol scenario_sell) = Inr (scenario_mid, scenario_broker)
   \<and> fill_price_of default_config scenario_mid (side scenario_sell) = 2010
   \<and> (\<exists>b' res. submit_order default_config no_feed 0 scenario_broker scenario_sell = Inr (b', res)
         \<and> balance b' = 30100
         \<and> map_of (positions b') ''XAUUSD''
             = Some \<lparr> size_pos = - 5, entry = 2010, pnl = - (3 / 4) \<rparr>)"
proof -
  have c: "connected scenario_broker" by (simp add: scenario_broker_def)
  have m: "lookup_mid no_feed scenario_broker (symbol scenario_sell)
             = Inr (scenario_mid, scenario_broker)"
    by (simp add: lookup_mid_def scenario_broker_def scenario_sell_def)
  have p: "map_of (positions scenario_broker) (symbol scenario_sell)
             = Some \<lparr> size_pos = 10, entry = 2000, pnl = 0 \<rparr>"
    by (simp add: scenario_broker_def scenario_sell_def)
  have s: "signed_size_of scenario_sell = - 15"
    by (simp add: signed_size_of_def scenario_sell_def)
  have f: "fill_price_of default_config scenario_mid (side scenario_sell) = 2010"
    by (simp add: fill_price_of_def default_config_def scenario_sell_def scenario_mid_def Let_def)
  have l: "leverage_limit default_config \<noteq> 0" by (simp add: default_config_def)
  have sy: "symbol scenario_sell = ''XAUUSD''" by (simp add: scenario_sell_def)
  have bal: "balance scenario_broker = 30000" by (simp add: scenario_broker_def)
  from submit_order_opposing[OF c m p _ l, of 0] c m f
  show ?thesis by (simp add: s f sy bal scenario_mid_def)
qed

lemma get_account_info_Inr:
  assumes "get_account_info cfg b = Inr (b', acct)"
  shows "equity b' = balance b' + sum_pnl (positions b')"
    and "acc_equity acct = acc_balance acct + acc_unrealized acct"
    and "acc_equity acct = equity b'" and "acc_balance acct = balance b'"
  using assms
  by (auto simp: get_account_info_def Let_def split: sum.splits list.splits)

lemma get_account_info_total:
  assumes "leverage_limit cfg \<noteq> 0"
  shows "\<exists>b' acct. get_account_info cfg b = Inr (b', acct)"
proof (cases "last_prices b")
  case Nil
  then show ?thesis by (simp add: get_account_info_def Let_def)
next
  case (Cons a rest)
  obtain k m where a: "a = (k, m)" by (cases a)
  from mark_positions_total[OF assms] obtain b1 where "mark_positions cfg m b = Inr b1" by blast
  with Cons a show ?thesis by (simp add: get_account_info_def Let_def)
qed

lemma submit_order_equity:
  assumes sub: "submit_order cfg fetch now_ms b order = Inr (b', res)" and ok: "success res"
  shows "equity b' = balance b' + sum_pnl (positions b')"
proof -
  have conn: "connected b"
    using sub ok by (auto simp: submit_order_def OrderResult_def split: if_splits)
  from sub conn obtain mid b1 where mid: "lookup_mid fetch b (symbol order) = Inr (mid, b1)"
    by (auto simp: submit_order_def split: sum.splits)
  obtain realized pos1 where
    u: "update_position (start_position b (symbol order) (fill_price_of cfg mid (side order)))
              (signed_size_of order) (fill_price_of cfg mid (side order)) = (realized, pos1)"
    by (cases "update_position (start_position b (symbol order) (fill_price_of cfg mid (side order)))
              (signed_size_of order) (fill_price_of cfg mid (side order))")
  show ?thesis by (rule submit_order_Inr(3)[OF conn mid u sub])
qed

text \<open>
  C2. After every fill of \<open>submit_order\<close>, after every \<open>get_account_info\<close> and after
  every \<open>_mark_positions\<close>, the ledger satisfies \<open>equity = balance + sum of the positions' pnl\<close>, over all positions of
  the map, and the account returned reports that equity; with a non-zero leverage limit
  \<open>get_account_info\<close> always returns.
\<close>

theorem equity_invariant:
  "(\<forall>b' res. submit_order cfg fetch now_ms b order = Inr (b', res) \<and> success res
       \<longrightarrow> equity b' = balance b' + sum_pnl (positions b'))
   \<and> (\<forall>b' acct. get_account_info cfg b = Inr (b', acct)
       \<longrightarrow> equity b' = balance b' + sum_pnl (positions b')
           \<and> acc_equity acct = equity b')
   \<and> (\<forall>b'. mark_positions cfg mid b = Inr b'
       \<longrightarrow> equity b' = balance b' + sum_pnl (positions b'))
   \<and> (leverage_limit cfg \<noteq> 0 \<longrightarrow> (\<exists>b' acct. get_account_info cfg b = Inr (b', acct)))"
proof (intro conjI allI impI)
  fix b' res
  assume "submit_order cfg fetch now_ms b order = Inr (b', res) \<and> success res"
  then show "equity b' = balance b' + sum_pnl (positions b')"
    using submit_order_equity by blast
next
  fix b' acct
  assume a: "get_account_info cfg b = Inr (b', acct)"
  show "equity b' = balance b' + sum_pnl (positions b')"
    by (rule get_account_info_Inr(1)[OF a])
  show "acc_equity acct = equity b'"
    by (rule get_account_info_Inr(3)[OF a])
next
  fix b'
  assume "mark_positions cfg mid b = Inr b'"
  then show "equity b' = balance b' + sum_pnl (positions b')"
    by (rule mark_positions_Inr(2))
next
  assume "leverage_limit cfg \<noteq> 0"
  then show "\<exists>b' acct. get_account_info cfg b = Inr (b', acct)"
    by (rule get_account_info_total)
qed

text \<open>The fill, the account query and a mark to 2000 on the ledger of the flip scenario.\<close>

theorem equity_invariant_witness:
  "(\<exists>b' res. submit_order default_config no_feed 0 scenario_broker scenario_sell = Inr (b', res)
       \<and> success res \<and> equity b' = balance b' + sum_pnl (positions b'))
   \<and> (\<exists>b' acct. get_account_info default_config scenario_broker = Inr (b', acct)
       \<and> equity b' = balance b' + sum_pnl (positions b') \<and> acc_equity acct = equity b')
   \<and> (\<exists>b'. mark_positions default_config 2000 scenario_broker = Inr b'
       \<and> equity b' = balance b' + sum_pnl (positions b'))"
proof -
  have c: "connected scenario_broker" by (simp add: scenario_broker_def)
  have m: "lookup_mid no_feed scenario_broker (symbol scenario_sell)
             = Inr (scenario_mid, scenario_broker)"
    by (simp add: lookup_mid_def scenario_broker_def scenario_sell_def)
  have l: "leverage_limit default_config \<noteq> 0" by (simp add: default_config_def)
  obtain realized pos1 where
    u: "update_position (start_position scenario_broker (symbol scenario_sell)
              (fill_price_of default_config scenario_mid (side scenario_sell)))
              (signed_size_of scenario_sell)
              (fill_price_of default_config scenario_mid (side scenario_sell)) = (realized, pos1)"
    by (cases "update_position (start_position scenario_broker (symbol scenario_sell)
              (fill_price_of default_config scenario_mid (side scenario_sell)))
              (signed_size_of scenario_sell)
              (fill_price_of default_config scenario_mid (side scenario_sell))")
  from submit_order_total[OF c m l, of 0] obtain b' res where
    s: "submit_order default_config no_feed 0 scenario_broker scenario_sell = Inr (b', res)"
    by blast
  have "success res"
    using submit_order_Inr(4)[OF c m u s] by (simp add: OrderResult_def)
  note inv = equity_invariant[where cfg = default_config and fetch = no_feed and now_ms = 0
                 and b = scenario_broker and order = scenario_sell and mid = 2000]
  from \<open>success res\<close> s inv
  have 1: "\<exists>b' res. submit_order default_config no_feed 0 scenario_broker scenario_sell = Inr (b', res)
       \<and> success res \<and> equity b' = balance b' + sum_pnl (positions b')"
    by blast
  from inv l
  have 2: "\<exists>b' acct. get_account_info default_config scenario_broker = Inr (b', acct)
       \<and> equity b' = balance b' + sum_pnl (positions b') \<and> acc_equity acct = equity b'"
    by blast
  from mark_positions_total[OF l, of 2000 scenario_broker] inv
  have 3: "\<exists>b'. mark_positions default_config 2000 scenario_broker = Inr b'
       \<and> equity b' = balance b' + sum_pnl (positions b')"
    by blast
  from 1 2 3 show ?thesis by blast
qed

text \<open>
  C4, as stated, fails: a connected broker with no known price for the symbol and an
  empty price feed lets the \<open>RuntimeError\<close> of \<open>_fetch_price_sync\<close> out of
  \<open>submit_order\<close>.
\<close>

theorem submit_order_raises_counterexample:
  "connected flat_broker
   \<and> submit_order default_config no_feed 0 flat_broker scenario_sell
       = Inl (RuntimeError ''Empty price history from yfinance'')"
  by (simp add: submit_order_def lookup_mid_def flat_broker_def no_feed_def scenario_sell_def)

text \<open>
  C4, amended. \<open>submit_order\<close> returns the failure result with reason "Disconnected",
  leaving the ledger unchanged, when the broker is not connected. When it is connected,
  a mid price is available (known, or fetched) and the leverage limit is not zero, it
  returns a successful result with the order's size as filled size, the fill price and
  an order id. When it is connected and the price fetch raises, that exception
  propagates.
\<close>

theorem submit_order_outcomes:
  "(\<not> connected b \<longrightarrow>
      submit_order cfg fetch now_ms b order
        = Inr (b, OrderResult False 0 None (Some ''Disconnected'') None))
   \<and> (connected b \<and> lookup_mid fetch b (symbol order) = Inr (mid, b1)
        \<and> leverage_limit cfg \<noteq> 0 \<longrightarrow>
      (\<exists>b'. submit_order cfg fetch now_ms b order
         = Inr (b', OrderResult True (size_req order)
                      (Some (fill_price_of cfg mid (side order))) None
                      (Some (client_id order @ ''-'' @ show_int now_ms)))))
   \<and> (connected b \<and> lookup_mid fetch b (symbol order) = Inl e \<longrightarrow>
      submit_order cfg fetch now_ms b order = Inl e)"
proof (intro conjI impI)
  assume "\<not> connected b"
  then show "submit_order cfg fetch now_ms b order
        = Inr (b, OrderResult False 0 None (Some ''Disconnected'') None)"
    by (simp add: submit_order_def)
next
  assume a: "connected b \<and> lookup_mid fetch b (symbol order) = Inr (mid, b1)
        \<and> leverage_limit cfg \<noteq> 0"
  then have conn: "connected b" and mid: "lookup_mid fetch b (symbol order) = Inr (mid, b1)"
    and lev: "leverage_limit cfg \<noteq> 0" by simp_all
  obtain realized pos1 where
    u: "update_position (start_position b (symbol order) (fill_price_of cfg mid (side order)))
              (signed_size_of order) (fill_price_of cfg mid (side order)) = (realized, pos1)"
    by (cases "update_position (start_position b (symbol order) (fill_price_of cfg mid (side order)))
              (signed_size_of order) (fill_price_of cfg mid (side order))")
  from submit_order_total[OF conn mid lev] obtain b' res where
    s: "submit_order cfg fetch now_ms b order = Inr (b', res)" by blast
  from submit_order_Inr(4)[OF conn mid u s] s
  show "\<exists>b'. submit_order cfg fetch now_ms b order
         = Inr (b', OrderResult True (size_req order)
                      (Some (fill_price_of cfg mid (side order))) None
                      (Some (client_id order @ ''-'' @ show_int now_ms)))"
    by blast
next
  assume "connected b \<and> lookup_mid fetch b (symbol order) = Inl e"
  then show "submit_order cfg fetch now_ms b order = Inl e"
    by (simp add: submit_order_def)
qed

text \<open>The three outcomes, on concrete ledgers.\<close>

theorem submit_order_outcomes_witness:
  "submit_order default_config no_feed 0 (flat_broker\<lparr>connected := False\<rparr>) scenario_sell
        = Inr (flat_broker\<lparr>connected := False\<rparr>, OrderResult False 0 None (Some ''Disconnected'') None)
   \<and> (\<exists>b'. submit_order default_config no_feed 1700000000000 scenario_broker scenario_sell
         = Inr (b', OrderResult True 15 (Some 2010) None (Some ''ALGOBOT-001-1700000000000'')))
   \<and> submit_order default_config no_feed 0 flat_broker scenario_sell
        = Inl (RuntimeError ''Empty price history from yfinance'')"
proof -
  have c: "connected scenario_broker" by (simp add: scenario_broker_def)
  have m: "lookup_mid no_feed scenario_broker (symbol scenario_sell)
             = Inr (scenario_mid, scenario_broker)"
    by (simp add: lookup_mid_def scenario_broker_def scenario_sell_def)
  have l: "leverage_limit default_config \<noteq> 0" by (simp add: default_config_def)
  have f: "fill_price_of default_config scenario_mid (side scenario_sell) = 2010"
    by (simp add: fill_price_of_def default_config_def scenario_sell_def scenario_mid_def Let_def)
  have i: "show_int 1700000000000 = ''1700000000000''"
    by (simp add: show_int_def)
  have o: "size_req scenario_sell = 15" "client_id scenario_sell = ''ALGOBOT-001''"
    by (simp_all add: scenario_sell_def)
  have c2: "connected flat_broker" by (simp add: flat_broker_def)
  have m2: "lookup_mid no_feed flat_broker (symbol scenario_sell)
             = Inl (RuntimeError ''Empty price history from yfinance'')"
    by (simp add: lookup_mid_def flat_broker_def no_feed_def)
  have d: "\<not> connected (flat_broker\<lparr>connected := False\<rparr>)" by simp
  from submit_order_outcomes[of "flat_broker\<lparr>connected := False\<rparr>" default_config no_feed 0 scenario_sell] d
  have 1: "submit_order default_config no_feed 0 (flat_broker\<lparr>connected := False\<rparr>) scenario_sell
        = Inr (flat_broker\<lparr>connected := False\<rparr>, OrderResult False 0 None (Some ''Disconnected'') None)"
    by blast
  from submit_order_outcomes[of scenario_broker default_config no_feed 1700000000000 scenario_sell
         scenario_mid scenario_broker] c m l
  have 2: "\<exists>b'. submit_order default_config no_feed 1700000000000 scenario_broker scenario_sell
         = Inr (b', OrderResult True 15 (Some 2010) None (Some ''ALGOBOT-001-1700000000000''))"
    by (simp add: f i o)
  from submit_order_outcomes[of flat_broker default_config no_feed 0 scenario_sell _ _
         "RuntimeError ''Empty price history from yfinance''"] c2 m2
  have 3: "submit_order default_config no_feed 0 flat_broker scenario_sell
        = Inl (RuntimeError ''Empty price history from yfinance'')"
    by blast
  from 1 2 3 show ?thesis by blast
qed

text \<open>
  C10. Two order requests with the same symbol, side, size and stop-loss, submitted to the
  same broker state, give the same outcome: the same ledger (positions, balance, equity,
  margin) and the same success flag, filled size and average (fill) price. The price
  field of the request has no influence.
\<close>

theorem price_field_ignored:
  assumes "symbol o1 = symbol o2" and "side o1 = side o2" and "size_req o1 = size_req o2"
    and "stop_loss o1 = stop_loss o2"
  shows "fill_view (submit_order cfg fetch now_ms b o1)
           = fill_view (submit_order cfg fetch now_ms b o2)"
  using assms
  by (simp add: submit_order_def fill_view_def signed_size_of_def OrderResult_def Let_def
           split: sum.splits prod.splits)


text \<open>The flip scenario's order and a copy with another price: same fill, and it returns.\<close>

theorem price_field_ignored_witness:
  "symbol scenario_sell = symbol (scenario_sell\<lparr>price := 1\<rparr>)
   \<and> side scenario_sell = side (scenario_sell\<lparr>price := 1\<rparr>)
   \<and> size_req scenario_sell = size_req (scenario_sell\<lparr>price := 1\<rparr>)
   \<and> stop_loss scenario_sell = stop_loss (scenario_sell\<lparr>price := 1\<rparr>)
   \<and> price scenario_sell \<noteq> price (scenario_sell\<lparr>price := 1\<rparr>)
   \<and> fill_view (submit_order default_config no_feed 0 scenario_broker scenario_sell)
       = fill_view (submit_order default_config no_feed 0 scenario_broker
                      (scenario_sell\<lparr>price := 1\<rparr>))
   \<and> (\<exists>b' res. submit_order default_config no_feed 0 scenario_broker scenario_sell
                   = Inr (b', res))"
proof -
  have c: "connected scenario_broker" by (simp add: scenario_broker_def)
  have m: "lookup_mid no_feed scenario_broker (symbol scenario_sell)
             = Inr (scenario_mid, scenario_broker)"
    by (simp add: lookup_mid_def scenario_broker_def scenario_sell_def)
  have l: "leverage_limit default_config \<noteq> 0" by (simp add: default_config_def)
  have p: "price scenario_sell \<noteq> price (scenario_sell\<lparr>price := 1\<rparr>)"
    by (simp add: scenario_sell_def)
  from price_field_ignored[of scenario_sell "scenario_sell\<lparr>price := 1\<rparr>" default_config
         no_feed 0 scenario_broker]
  have "fill_view (submit_order default_config no_feed 0 scenario_broker scenario_sell)
       = fill_view (submit_order default_config no_feed 0 scenario_broker
                      (scenario_sell\<lparr>price := 1\<rparr>))"
    by simp
  with p submit_order_total[OF c m l, of 0] show ?thesis by simp
qed

lemma update_position_same:
  assumes "same_direction (size_pos pos) s"
  shows "update_position pos s fp =
           (0, pos\<lparr>entry := (entry pos * \<bar>size_pos pos\<bar> + fp * \<bar>s\<bar>) / \<bar>size_pos pos + s\<bar>,
                   size_pos := size_pos pos + s\<rparr>)"
  using assms by (auto simp: update_position_def same_direction_def Let_def)

lemma update_position_flat:
  assumes "size_pos pos = 0"
  shows "update_position pos s fp = (0, pos\<lparr>size_pos := s\<rparr>)"
  using assms by (simp add: update_position_def Let_def)

lemma same_direction_add:
  assumes "same_direction a s"
  shows "\<bar>a + s\<bar> = \<bar>a\<bar> + \<bar>s\<bar>" and "same_direction (a + s) t = same_direction a t"
    and "a + s \<noteq> 0" and "a \<noteq> 0" and "s \<noteq> 0"
  using assms by (auto simp: same_direction_def)

lemma submit_order_connected:
  assumes "submit_order cfg fetch now_ms b order = Inr (b', res)"
  shows "connected b' = connected b"
proof (cases "connected b")
  case False
  with assms show ?thesis by (simp add: submit_order_def)
next
  case True
  from assms True obtain mid b1 where mid: "lookup_mid fetch b (symbol order) = Inr (mid, b1)"
    by (auto simp: submit_order_def split: sum.splits)
  obtain realized pos1 where
    u: "update_position (start_position b (symbol order) (fill_price_of cfg mid (side order)))
              (signed_size_of order) (fill_price_of cfg mid (side order)) = (realized, pos1)"
    by (cases "update_position (start_position b (symbol order) (fill_price_of cfg mid (side order)))
              (signed_size_of order) (fill_price_of cfg mid (side order))")
  from assms have "(case mark_positions cfg mid
                   (if size_pos pos1 = 0
                    then b1\<lparr>balance := balance b + realized,
                            positions := AList.delete (symbol order) (positions b)\<rparr>
                    else b1\<lparr>balance := balance b + realized,
                            positions := AList.update (symbol order)
                              (pos1\<lparr>pnl := (mid - entry pos1) * size_pos pos1\<rparr>) (positions b)\<rparr>) of
              Inl e \<Rightarrow> Inl e
            | Inr b4 \<Rightarrow>
                Inr (b4, OrderResult True (size_req order)
                           (Some (fill_price_of cfg mid (side order))) None
                           (Some (client_id order @ ''-'' @ show_int now_ms)))) = Inr (b', res)"
    unfolding submit_order_unfold[OF True mid u] .
  then obtain b3 where m: "mark_positions cfg mid b3 = Inr b'" and c: "connected b3 = connected b1"
    by (auto split: sum.splits if_splits)
  from mark_positions_Inr(4)[OF m] c lookup_mid_Inr(3)[OF mid] show ?thesis by simp
qed

lemma stream_step_Inr:
  assumes "stream_step cfg sy mid b = Inr b1"
  shows "connected b1 = connected b"
    and "lookup_mid fetch b1 sy = Inr (mid, b1)"
    and "map_of (positions b1) k =
           map_option (\<lambda>p. p\<lparr>pnl := (mid - entry p) * size_pos p\<rparr>) (map_of (positions b) k)"
proof -
  let ?b = "b\<lparr>last_prices := AList.update sy mid (last_prices b)\<rparr>"
  from assms have m: "mark_positions cfg mid ?b = Inr b1" by (simp add: stream_step_def)
  note mk = mark_positions_Inr[OF m]
  show "connected b1 = connected b" using mk(4) by simp
  have "map_of (last_prices b1) sy = Some mid" using mk(5) by (simp add: update_conv')
  then show "lookup_mid fetch b1 sy = Inr (mid, b1)" by (simp add: lookup_mid_def)
  show "map_of (positions b1) k =
           map_option (\<lambda>p. p\<lparr>pnl := (mid - entry p) * size_pos p\<rparr>) (map_of (positions b) k)"
    using mk(1) by (simp add: map_of_marked)
qed

lemma stream_step_total:
  "leverage_limit cfg \<noteq> 0 \<Longrightarrow> \<exists>b1. stream_step cfg sy mid b = Inr b1"
  unfolding stream_step_def by (rule mark_positions_total)

text \<open>One same-direction fill on an existing position.\<close>

lemma submit_order_same:
  assumes conn: "connected b"
    and mid: "lookup_mid fetch b (symbol order) = Inr (mid, b1)"
    and pos: "map_of (positions b) (symbol order) = Some pos"
    and dir: "same_direction (size_pos pos) (signed_size_of order)"
    and lev: "leverage_limit cfg \<noteq> 0"
  shows "\<exists>b' res. submit_order cfg fetch now_ms b order = Inr (b', res)
           \<and> balance b' = balance b
           \<and> map_of (positions b') (symbol order) =
               Some \<lparr> size_pos = size_pos pos + signed_size_of order,
                      entry = (entry pos * \<bar>size_pos pos\<bar>
                                + fill_price_of cfg mid (side order) * \<bar>signed_size_of order\<bar>)
                              / \<bar>size_pos pos + signed_size_of order\<bar>,
                      pnl = (mid - (entry pos * \<bar>size_pos pos\<bar>
                                + fill_price_of cfg mid (side order) * \<bar>signed_size_of order\<bar>)
                              / \<bar>size_pos pos + signed_size_of order\<bar>)
                             * (size_pos pos + signed_size_of order) \<rparr>"
proof -
  let ?fp = "fill_price_of cfg mid (side order)"
  let ?s = "signed_size_of order"
  from submit_order_total[OF conn mid lev] obtain b' res where
    sub: "submit_order cfg fetch now_ms b order = Inr (b', res)" by blast
  have sp: "start_position b (symbol order) ?fp = pos"
    using pos by (simp add: start_position_def)
  have u: "update_position (start_position b (symbol order) ?fp) ?s ?fp =
             (0, pos\<lparr>entry := (entry pos * \<bar>size_pos pos\<bar> + ?fp * \<bar>?s\<bar>) / \<bar>size_pos pos + ?s\<bar>,
                     size_pos := size_pos pos + ?s\<rparr>)"
    unfolding sp by (rule update_position_same[OF dir])
  note r = submit_order_Inr[OF conn mid u sub]
  have nz: "size_pos pos + ?s \<noteq> 0" by (rule same_direction_add(3)[OF dir])
  have "map_of (positions b') (symbol order) =
               Some \<lparr> size_pos = size_pos pos + ?s,
                      entry = (entry pos * \<bar>size_pos pos\<bar> + ?fp * \<bar>?s\<bar>) / \<bar>size_pos pos + ?s\<bar>,
                      pnl = (mid - (entry pos * \<bar>size_pos pos\<bar> + ?fp * \<bar>?s\<bar>)
                                     / \<bar>size_pos pos + ?s\<bar>) * (size_pos pos + ?s) \<rparr>"
    using r(2) nz by (cases pos) simp
  with sub r(1) show ?thesis by auto
qed

text \<open>The first fill of a symbol with no position.\<close>

lemma submit_order_new:
  assumes conn: "connected b"
    and mid: "lookup_mid fetch b (symbol order) = Inr (mid, b1)"
    and pos: "map_of (positions b) (symbol order) = None"
    and nz: "signed_size_of order \<noteq> 0"
    and lev: "leverage_limit cfg \<noteq> 0"
  shows "\<exists>b' res. submit_order cfg fetch now_ms b order = Inr (b', res)
           \<and> balance b' = balance b
           \<and> map_of (positions b') (symbol order) =
               Some \<lparr> size_pos = signed_size_of order,
                      entry = fill_price_of cfg mid (side order),
                      pnl = (mid - fill_price_of cfg mid (side order)) * signed_size_of order \<rparr>"
proof -
  let ?fp = "fill_price_of cfg mid (side order)"
  let ?s = "signed_size_of order"
  let ?p0 = "\<lparr> size_pos = 0, entry = ?fp, pnl = 0 \<rparr>"
  from submit_order_total[OF conn mid lev] obtain b' res where
    sub: "submit_order cfg fetch now_ms b order = Inr (b', res)" by blast
  have sp: "start_position b (symbol order) ?fp = ?p0"
    using pos by (simp add: start_position_def)
  have u: "update_position (start_position b (symbol order) ?fp) ?s ?fp = (0, ?p0\<lparr>size_pos := ?s\<rparr>)"
    unfolding sp by (rule update_position_flat) simp
  note r = submit_order_Inr[OF conn mid u sub]
  have "map_of (positions b') (symbol order) =
               Some \<lparr> size_pos = ?s, entry = ?fp, pnl = (mid - ?fp) * ?s \<rparr>"
    using r(2) nz by simp
  with sub r(1) show ?thesis by auto
qed


lemma fill_sequence_same:
  assumes lev: "leverage_limit cfg \<noteq> 0"
    and conn: "connected b"
    and pos: "map_of (positions b) sy = Some pos"
    and evs: "\<forall>(mid, order) \<in> set evs.
                 symbol order = sy \<and> same_direction (size_pos pos) (signed_size_of order)"
  shows "\<exists>b' p. fill_sequence cfg fetch now_ms b evs = Inr b'
           \<and> connected b'
           \<and> map_of (positions b') sy = Some p
           \<and> \<bar>size_pos p\<bar> = \<bar>size_pos pos\<bar> + fills_size evs
           \<and> entry p * \<bar>size_pos p\<bar> = entry pos * \<bar>size_pos pos\<bar> + fills_notional cfg evs"
  using conn pos evs
proof (induction evs arbitrary: b pos)
  case Nil
  then show ?case by (simp add: fills_size_def fills_notional_def)
next
  case (Cons ev evs)
  obtain mid order where ev: "ev = (mid, order)" by (cases ev)
  let ?s = "signed_size_of order"
  let ?fp = "fill_price_of cfg mid (side order)"
  from Cons.prems(3) ev have sy: "symbol order = sy"
    and dir: "same_direction (size_pos pos) ?s" by simp_all
  from stream_step_total[OF lev] obtain b1 where st: "stream_step cfg sy mid b = Inr b1" by blast
  note s1 = stream_step_Inr[OF st]
  let ?pos1 = "pos\<lparr>pnl := (mid - entry pos) * size_pos pos\<rparr>"
  have c1: "connected b1" using s1(1) Cons.prems(1) by simp
  have m1: "lookup_mid fetch b1 (symbol order) = Inr (mid, b1)" using s1(2) sy by simp
  have p1: "map_of (positions b1) (symbol order) = Some ?pos1"
    using s1(3)[of sy] Cons.prems(2) sy by simp
  have d1: "same_direction (size_pos ?pos1) ?s" using dir by simp
  from submit_order_same[OF c1 m1 p1 d1 lev, where now_ms = now_ms] obtain b2 res p2 where
    sub: "submit_order cfg fetch now_ms b1 order = Inr (b2, res)"
    and p2: "map_of (positions b2) sy = Some p2"
    and sz2: "size_pos p2 = size_pos pos + ?s"
    and en2: "entry p2 = (entry pos * \<bar>size_pos pos\<bar> + ?fp * \<bar>?s\<bar>) / \<bar>size_pos pos + ?s\<bar>"
    using sy by auto
  have c2: "connected b2" using submit_order_connected[OF sub] c1 by simp
  note a = same_direction_add[OF dir]
  have e2: "\<forall>(mid, order) \<in> set evs.
                 symbol order = sy \<and> same_direction (size_pos p2) (signed_size_of order)"
    using Cons.prems(3) a(2) sz2 by auto
  from Cons.IH[OF c2 p2 e2] obtain b' p where
    f: "fill_sequence cfg fetch now_ms b2 evs = Inr b'" and c: "connected b'"
    and p: "map_of (positions b') sy = Some p"
    and sz: "\<bar>size_pos p\<bar> = \<bar>size_pos p2\<bar> + fills_size evs"
    and en: "entry p * \<bar>size_pos p\<bar> = entry p2 * \<bar>size_pos p2\<bar> + fills_notional cfg evs"
    by blast
  have f': "fill_sequence cfg fetch now_ms b (ev # evs) = Inr b'"
    using st sub f ev sy by simp
  have n2: "entry p2 * \<bar>size_pos p2\<bar> = entry pos * \<bar>size_pos pos\<bar> + ?fp * \<bar>?s\<bar>"
    using en2 sz2 a(3) by simp
  have sz': "\<bar>size_pos p\<bar> = \<bar>size_pos pos\<bar> + fills_size (ev # evs)"
    using sz sz2 a(1) ev by (simp add: fills_size_def)
  have en': "entry p * \<bar>size_pos p\<bar> = entry pos * \<bar>size_pos pos\<bar> + fills_notional cfg (ev # evs)"
    using en n2 ev by (simp add: fills_notional_def)
  from f' c p sz' en' show ?case by blast
qed

lemma fill_sequence_new:
  assumes lev: "leverage_limit cfg \<noteq> 0"
    and conn: "connected b"
    and pos: "map_of (positions b) sy = None"
    and ne: "evs \<noteq> []"
    and evs: "\<forall>(mid, order) \<in> set evs.
                 symbol order = sy \<and> same_direction d (signed_size_of order)"
  shows "\<exists>b' p. fill_sequence cfg fetch now_ms b evs = Inr b'
           \<and> map_of (positions b') sy = Some p
           \<and> \<bar>size_pos p\<bar> = fills_size evs
           \<and> fills_size evs > 0
           \<and> entry p = fills_notional cfg evs / fills_size evs"
proof -
  from ne obtain mid order rest where e: "evs = (mid, order) # rest"
    by (cases evs) auto
  let ?s = "signed_size_of order"
  let ?fp = "fill_price_of cfg mid (side order)"
  from evs e have sy: "symbol order = sy" and dir: "same_direction d ?s" by simp_all
  have nz: "?s \<noteq> 0" using dir by (auto simp: same_direction_def)
  from stream_step_total[OF lev] obtain b1 where st: "stream_step cfg sy mid b = Inr b1" by blast
  note s1 = stream_step_Inr[OF st]
  have c1: "connected b1" using s1(1) conn by simp
  have m1: "lookup_mid fetch b1 (symbol order) = Inr (mid, b1)" using s1(2) sy by simp
  have p1: "map_of (positions b1) (symbol order) = None"
    using s1(3)[of sy] pos sy by simp
  from submit_order_new[OF c1 m1 p1 nz lev, where now_ms = now_ms] obtain b2 res p2 where
    sub: "submit_order cfg fetch now_ms b1 order = Inr (b2, res)"
    and p2: "map_of (positions b2) sy = Some p2"
    and sz2: "size_pos p2 = ?s" and en2: "entry p2 = ?fp"
    using sy by auto
  have c2: "connected b2" using submit_order_connected[OF sub] c1 by simp
  have sd: "\<And>t. same_direction d t \<Longrightarrow> same_direction ?s t"
    using dir by (auto simp: same_direction_def)
  have e2: "\<forall>(mid, order) \<in> set rest.
                 symbol order = sy \<and> same_direction (size_pos p2) (signed_size_of order)"
    using evs e sz2 sd by auto
  from fill_sequence_same[OF lev c2 p2 e2, where fetch = fetch and now_ms = now_ms] obtain b' p where
    f: "fill_sequence cfg fetch now_ms b2 rest = Inr b'"
    and p: "map_of (positions b') sy = Some p"
    and sz: "\<bar>size_pos p\<bar> = \<bar>size_pos p2\<bar> + fills_size rest"
    and en: "entry p * \<bar>size_pos p\<bar> = entry p2 * \<bar>size_pos p2\<bar> + fills_notional cfg rest"
    by blast
  have f': "fill_sequence cfg fetch now_ms b evs = Inr b'"
    using st sub f e sy by simp
  have sz': "\<bar>size_pos p\<bar> = fills_size evs"
    using sz sz2 e by (simp add: fills_size_def)
  have en': "entry p * \<bar>size_pos p\<bar> = fills_notional cfg evs"
    using en en2 sz2 e by (simp add: fills_notional_def)
  have "fills_size rest \<ge> 0"
    unfolding fills_size_def by (rule sum_list_nonneg) auto
  then have pos': "fills_size evs > 0" using nz e by (simp add: fills_size_def)
  have "entry p = fills_notional cfg evs / fills_size evs"
    using en' sz' pos' by (simp add: field_simps)
  with f' p sz' pos' show ?thesis by blast
qed


text \<open>
  C5. On a connected broker, an order in the same direction as the non-zero position of
  its symbol leaves the entry price at the size-weighted average
  \<open>(entry * |old| + fill * |signed|) / |new size|\<close> of the prior entry and the new fill;
  a first order for a symbol enters at its fill price; and after any non-empty run of
  same-direction orders from no position, the entry price is the size-weighted average
  of all the fill prices of the run.
\<close>

theorem same_direction_entry:
  assumes conn: "connected b" and lev: "leverage_limit cfg \<noteq> 0"
  shows
    "(\<forall>mid b1 pos.
        lookup_mid fetch b (symbol order) = Inr (mid, b1)
        \<and> map_of (positions b) (symbol order) = Some pos
        \<and> same_direction (size_pos pos) (signed_size_of order)
        \<longrightarrow> (\<exists>b' res p. submit_order cfg fetch now_ms b order = Inr (b', res)
               \<and> map_of (positions b') (symbol order) = Some p
               \<and> size_pos p = size_pos pos + signed_size_of order
               \<and> entry p = (entry pos * \<bar>size_pos pos\<bar>
                              + fill_price_of cfg mid (side order) * \<bar>signed_size_of order\<bar>)
                            / \<bar>size_pos pos + signed_size_of order\<bar>))
     \<and> (\<forall>mid b1.
        lookup_mid fetch b (symbol order) = Inr (mid, b1)
        \<and> map_of (positions b) (symbol order) = None
        \<and> signed_size_of order \<noteq> 0
        \<longrightarrow> (\<exists>b' res p. submit_order cfg fetch now_ms b order = Inr (b', res)
               \<and> map_of (positions b') (symbol order) = Some p
               \<and> size_pos p = signed_size_of order
               \<and> entry p = fill_price_of cfg mid (side order)))
     \<and> (\<forall>sy d evs.
        map_of (positions b) sy = None \<and> evs \<noteq> []
        \<and> (\<forall>(mid, order) \<in> set evs.
               symbol order = sy \<and> same_direction d (signed_size_of order))
        \<longrightarrow> (\<exists>b' p. fill_sequence cfg fetch now_ms b evs = Inr b'
               \<and> map_of (positions b') sy = Some p
               \<and> \<bar>size_pos p\<bar> = fills_size evs
               \<and> entry p = fills_notional cfg evs / fills_size evs))"
proof (intro conjI allI impI)
  fix mid b1 pos
  assume a: "lookup_mid fetch b (symbol order) = Inr (mid, b1)
        \<and> map_of (positions b) (symbol order) = Some pos
        \<and> same_direction (size_pos pos) (signed_size_of order)"
  from submit_order_same[OF conn _ _ _ lev, of fetch order mid b1 pos now_ms] a
  show "\<exists>b' res p. submit_order cfg fetch now_ms b order = Inr (b', res)
               \<and> map_of (positions b') (symbol order) = Some p
               \<and> size_pos p = size_pos pos + signed_size_of order
               \<and> entry p = (entry pos * \<bar>size_pos pos\<bar>
                              + fill_price_of cfg mid (side order) * \<bar>signed_size_of order\<bar>)
                            / \<bar>size_pos pos + signed_size_of order\<bar>"
    by auto
next
  fix mid b1
  assume a: "lookup_mid fetch b (symbol order) = Inr (mid, b1)
        \<and> map_of (positions b) (symbol order) = None
        \<and> signed_size_of order \<noteq> 0"
  from submit_order_new[OF conn _ _ _ lev, of fetch order mid b1 now_ms] a
  show "\<exists>b' res p. submit_order cfg fetch now_ms b order = Inr (b', res)
               \<and> map_of (positions b') (symbol order) = Some p
               \<and> size_pos p = signed_size_of order
               \<and> entry p = fill_price_of cfg mid (side order)"
    by auto
next
  fix sy :: string and d :: real and evs :: "(real \<times> order_request) list"
  assume a: "map_of (positions b) sy = None \<and> evs \<noteq> []
        \<and> (\<forall>(mid, order) \<in> set evs.
               symbol order = sy \<and> same_direction d (signed_size_of order))"
  then have 1: "map_of (positions b) sy = None" and 2: "evs \<noteq> []"
    and 3: "\<forall>(mid, order) \<in> set evs.
               symbol order = sy \<and> same_direction d (signed_size_of order)"
    by blast+
  from fill_sequence_new[OF lev conn 1 2 3, where fetch = fetch and now_ms = now_ms]
  show "\<exists>b' p. fill_sequence cfg fetch now_ms b evs = Inr b'
               \<and> map_of (positions b') sy = Some p
               \<and> \<bar>size_pos p\<bar> = fills_size evs
               \<and> entry p = fills_notional cfg evs / fills_size evs"
    by blast
qed


text \<open>
  An add of 5 to a long 10 at 2000, a first BUY of 15 at a fetched price, and a run of two
  BUYs (10 at mid 2000, 5 at mid 2010) from no position.
\<close>

theorem same_direction_entry_witness:
  "(\<exists>b' res p. submit_order default_config no_feed 0 scenario_broker (scenario_buy 5) = Inr (b', res)
       \<and> map_of (positions b') ''XAUUSD'' = Some p
       \<and> size_pos p = 15 \<and> entry p = (2000 * 10 + (20103 / 10) * 5) / 15)
   \<and> (\<exists>b' res p. submit_order default_config feed_2000 0 flat_broker (scenario_buy 15) = Inr (b', res)
       \<and> map_of (positions b') ''XAUUSD'' = Some p
       \<and> size_pos p = 15 \<and> entry p = 40003 / 20)
   \<and> (\<exists>b' p. fill_sequence default_config no_feed 0 flat_broker
                  [(2000, scenario_buy 10), (2010, scenario_buy 5)] = Inr b'
       \<and> map_of (positions b') ''XAUUSD'' = Some p
       \<and> \<bar>size_pos p\<bar> = 15
       \<and> entry p = ((40003 / 20) * 10 + (40203 / 20) * 5) / 15)"
proof -
  have lev: "leverage_limit default_config \<noteq> 0" by (simp add: default_config_def)
  have c1: "connected scenario_broker" by (simp add: scenario_broker_def)
  have c2: "connected flat_broker" by (simp add: flat_broker_def)
  have sy: "\<And>q. symbol (scenario_buy q) = ''XAUUSD''" by (simp add: scenario_buy_def)
  have sg: "\<And>q. signed_size_of (scenario_buy q) = q"
    by (simp add: signed_size_of_def scenario_buy_def)
  have fp: "\<And>m q. fill_price_of default_config m (side (scenario_buy q)) = m + 3 / 20"
    by (simp add: fill_price_of_def default_config_def scenario_buy_def Let_def)
  have h1: "lookup_mid no_feed scenario_broker (symbol (scenario_buy 5))
              = Inr (scenario_mid, scenario_broker)
        \<and> map_of (positions scenario_broker) (symbol (scenario_buy 5))
              = Some \<lparr> size_pos = 10, entry = 2000, pnl = 0 \<rparr>
        \<and> same_direction (size_pos \<lparr> size_pos = 10, entry = 2000, pnl = 0 \<rparr>)
              (signed_size_of (scenario_buy 5))"
    by (simp add: lookup_mid_def scenario_broker_def sy sg same_direction_def)
  from same_direction_entry[OF c1 lev, of no_feed "scenario_buy 5" 0] h1
  obtain b1 r1 p1 where
    "submit_order default_config no_feed 0 scenario_broker (scenario_buy 5) = Inr (b1, r1)"
    "map_of (positions b1) (symbol (scenario_buy 5)) = Some p1"
    "size_pos p1 = size_pos \<lparr> size_pos = 10, entry = 2000, pnl = 0 \<rparr>
                     + signed_size_of (scenario_buy 5)"
    "entry p1 = (entry \<lparr> size_pos = 10, entry = 2000, pnl = 0 \<rparr>
                    * \<bar>size_pos \<lparr> size_pos = 10, entry = 2000, pnl = 0 \<rparr>\<bar>
                  + fill_price_of default_config scenario_mid (side (scenario_buy 5))
                    * \<bar>signed_size_of (scenario_buy 5)\<bar>)
                / \<bar>size_pos \<lparr> size_pos = 10, entry = 2000, pnl = 0 \<rparr>
                     + signed_size_of (scenario_buy 5)\<bar>"
    by blast
  then have 1: "\<exists>b' res p. submit_order default_config no_feed 0 scenario_broker (scenario_buy 5)
                   = Inr (b', res)
       \<and> map_of (positions b') ''XAUUSD'' = Some p
       \<and> size_pos p = 15 \<and> entry p = (2000 * 10 + (20103 / 10) * 5) / 15"
    by (simp add: sy sg fp scenario_mid_def)
  have h2: "lookup_mid feed_2000 flat_broker (symbol (scenario_buy 15))
              = Inr (2000, flat_broker\<lparr>last_prices := [(''XAUUSD'', 2000)]\<rparr>)
        \<and> map_of (positions flat_broker) (symbol (scenario_buy 15)) = None
        \<and> signed_size_of (scenario_buy 15) \<noteq> 0"
    by (simp add: lookup_mid_def flat_broker_def feed_2000_def sy sg)
  from same_direction_entry[OF c2 lev, of feed_2000 "scenario_buy 15" 0] h2
  obtain b2 r2 p2 where
    "submit_order default_config feed_2000 0 flat_broker (scenario_buy 15) = Inr (b2, r2)"
    "map_of (positions b2) (symbol (scenario_buy 15)) = Some p2"
    "size_pos p2 = signed_size_of (scenario_buy 15)"
    "entry p2 = fill_price_of default_config 2000 (side (scenario_buy 15))"
    by blast
  then have 2: "\<exists>b' res p. submit_order default_config feed_2000 0 flat_broker (scenario_buy 15)
                   = Inr (b', res)
       \<and> map_of (positions b') ''XAUUSD'' = Some p
       \<and> size_pos p = 15 \<and> entry p = 40003 / 20"
    by (simp add: sy sg fp)
  let ?evs = "[(2000, scenario_buy 10), (2010, scenario_buy 5)]"
  have h3: "map_of (positions flat_broker) ''XAUUSD'' = None \<and> ?evs \<noteq> []
        \<and> (\<forall>(mid, order) \<in> set ?evs.
               symbol order = ''XAUUSD'' \<and> same_direction 1 (signed_size_of order))"
    by (simp add: flat_broker_def sy sg same_direction_def)
  from same_direction_entry[OF c2 lev, of no_feed "scenario_buy 5" 0] h3
  obtain b3 p3 where
    "fill_sequence default_config no_feed 0 flat_broker ?evs = Inr b3"
    "map_of (positions b3) ''XAUUSD'' = Some p3"
    "\<bar>size_pos p3\<bar> = fills_size ?evs"
    "entry p3 = fills_notional default_config ?evs / fills_size ?evs"
    by blast
  then have 3: "\<exists>b' p. fill_sequence default_config no_feed 0 flat_broker ?evs = Inr b'
       \<and> map_of (positions b') ''XAUUSD'' = Some p
       \<and> \<bar>size_pos p\<bar> = 15
       \<and> entry p = ((40003 / 20) * 10 + (40203 / 20) * 5) / 15"
    by (simp add: fills_size_def fills_notional_def sg fp)
  from 1 2 3 show ?thesis by blast
qed

section \<open>Properties of the risk manager\<close>

lemma validate_order_breakers_fail:
  assumes "check_circuit_breakers cfg rs (acc_equity acct) = (rs', Inl e)"
  shows "validate_order cfg rs ctx acct ps = (rs', Inl e)"
  using assms by (simp add: validate_order_def)

lemma validate_order_breakers_pass:
  assumes "check_circuit_breakers cfg rs (acc_equity acct) = (rs', Inr u)"
  shows "validate_order cfg rs ctx acct ps =
     (rs',
      if \<bar>ctx_price ctx - ctx_stop_loss ctx\<bar> \<le> 0
      then Inl (RiskViolation ''Stop distance must be positive'')
      else if acc_equity acct * risk_per_trade cfg / \<bar>ctx_price ctx - ctx_stop_loss ctx\<bar> \<le> 0
      then Inl (RiskViolation ''Computed size is zero; reject order'')
      else (case check_leverage_and_exposure cfg (ctx_symbol ctx) (ctx_price ctx)
                   (acc_equity acct * risk_per_trade cfg / \<bar>ctx_price ctx - ctx_stop_loss ctx\<bar>)
                   acct ps of
              Inl e \<Rightarrow> Inl e
            | Inr u' \<Rightarrow>
                Inr (acc_equity acct * risk_per_trade cfg / \<bar>ctx_price ctx - ctx_stop_loss ctx\<bar>)))"
  using assms
  by (simp add: validate_order_def compute_position_size_def Let_def max_def split: sum.splits)


lemma validate_order_cases:
  "(\<exists>rs' e. check_circuit_breakers cfg rs (acc_equity acct) = (rs', Inl e))
   \<or> (\<exists>rs'. check_circuit_breakers cfg rs (acc_equity acct) = (rs', Inr ()))"
  by (cases "check_circuit_breakers cfg rs (acc_equity acct)") (metis old.sum.exhaust old.unit.exhaust)

text \<open>
  C6. \<open>validate_order\<close> takes \<open>stop_distance = |price - stop_loss|\<close>; it rejects when
  the stop distance is not positive (with the stop-distance reason once the circuit
  breakers pass), it rejects when the computed size is not positive (with the zero-size
  reason once the breakers pass), and a size it approves equals
  \<open>equity * risk_per_trade / stop_distance\<close>.
\<close>

theorem validate_order_sizing:
  "(\<bar>ctx_price ctx - ctx_stop_loss ctx\<bar> \<le> 0
      \<longrightarrow> (\<exists>e. snd (validate_order cfg rs ctx acct ps) = Inl e))
   \<and> (\<bar>ctx_price ctx - ctx_stop_loss ctx\<bar> \<le> 0
        \<and> snd (check_circuit_breakers cfg rs (acc_equity acct)) = Inr ()
      \<longrightarrow> snd (validate_order cfg rs ctx acct ps)
            = Inl (RiskViolation ''Stop distance must be positive''))
   \<and> (acc_equity acct * risk_per_trade cfg / \<bar>ctx_price ctx - ctx_stop_loss ctx\<bar> \<le> 0
      \<longrightarrow> (\<exists>e. snd (validate_order cfg rs ctx acct ps) = Inl e))
   \<and> (0 < \<bar>ctx_price ctx - ctx_stop_loss ctx\<bar>
        \<and> acc_equity acct * risk_per_trade cfg / \<bar>ctx_price ctx - ctx_stop_loss ctx\<bar> \<le> 0
        \<and> snd (check_circuit_breakers cfg rs (acc_equity acct)) = Inr ()
      \<longrightarrow> snd (validate_order cfg rs ctx acct ps)
            = Inl (RiskViolation ''Computed size is zero; reject order''))
   \<and> (\<forall>sz. snd (validate_order cfg rs ctx acct ps) = Inr sz
      \<longrightarrow> sz = acc_equity acct * risk_per_trade cfg / \<bar>ctx_price ctx - ctx_stop_loss ctx\<bar>
          \<and> 0 < \<bar>ctx_price ctx - ctx_stop_loss ctx\<bar> \<and> 0 < sz)"
proof -
  from validate_order_cases[of cfg rs acct] show ?thesis
  proof (elim disjE exE)
    fix rs' e
    assume "check_circuit_breakers cfg rs (acc_equity acct) = (rs', Inl e)"
    then show ?thesis
      by (simp add: validate_order_breakers_fail)
  next
    fix rs'
    assume "check_circuit_breakers cfg rs (acc_equity acct) = (rs', Inr ())"
    then show ?thesis
      by (simp add: validate_order_breakers_pass split: sum.splits)
  qed
qed


text \<open>
  Equal price and stop; a zero risk fraction; and the scenario of the specification:
  equity 30000, risk 0.005, price 2000, stop 1990 approve exactly 15.
\<close>

theorem validate_order_sizing_witness:
  "snd (validate_order default_config fresh_risk (buy_ctx 2000 2000) (account_of 30000 0 0) [])
       = Inl (RiskViolation ''Stop distance must be positive'')
   \<and> snd (validate_order (default_config\<lparr>risk_per_trade := 0\<rparr>) fresh_risk (buy_ctx 2000 1990)
             (account_of 30000 0 0) [])
       = Inl (RiskViolation ''Computed size is zero; reject order'')
   \<and> snd (validate_order default_config fresh_risk (buy_ctx 2000 1990) (account_of 30000 0 0) [])
       = Inr 15
   \<and> 30000 * risk_per_trade default_config / \<bar>2000 - 1990\<bar> = (15 :: real)"
proof -
  have e: "acc_equity (account_of 30000 0 0) = 30000" by (simp add: account_of_def)
  have b: "snd (check_circuit_breakers default_config fresh_risk 30000) = Inr ()"
    by (simp add: check_circuit_breakers_def fresh_risk_def default_config_def Let_def)
  have b0: "snd (check_circuit_breakers (default_config\<lparr>risk_per_trade := 0\<rparr>) fresh_risk 30000)
              = Inr ()"
    by (simp add: check_circuit_breakers_def fresh_risk_def default_config_def Let_def)
  have c: "\<And>p s. ctx_price (buy_ctx p s) = p" "\<And>p s. ctx_stop_loss (buy_ctx p s) = s"
    by (simp_all add: buy_ctx_def)
  have r: "risk_per_trade default_config = 5 / 1000" by (simp add: default_config_def)
  from validate_order_sizing[of "buy_ctx 2000 2000" default_config fresh_risk
         "account_of 30000 0 0" "[]"] b
  have 1: "snd (validate_order default_config fresh_risk (buy_ctx 2000 2000)
                  (account_of 30000 0 0) [])
       = Inl (RiskViolation ''Stop distance must be positive'')"
    by (simp add: e c)
  from validate_order_sizing[of "buy_ctx 2000 1990" "default_config\<lparr>risk_per_trade := 0\<rparr>"
         fresh_risk "account_of 30000 0 0" "[]"] b0
  have 2: "snd (validate_order (default_config\<lparr>risk_per_trade := 0\<rparr>) fresh_risk
                  (buy_ctx 2000 1990) (account_of 30000 0 0) [])
       = Inl (RiskViolation ''Computed size is zero; reject order'')"
    by (simp add: e c)
  have v: "snd (validate_order default_config fresh_risk (buy_ctx 2000 1990)
                  (account_of 30000 0 0) []) = Inr 15"
    by (simp add: validate_order_def check_circuit_breakers_def compute_position_size_def
          check_leverage_and_exposure_def aggregate_notional_def fresh_risk_def
          default_config_def buy_ctx_def account_of_def Let_def)
  from validate_order_sizing[of "buy_ctx 2000 1990" default_config fresh_risk
         "account_of 30000 0 0" "[]"] v
  have 3: "(15 :: real) = 30000 * risk_per_trade default_config / \<bar>2000 - 1990\<bar>"
    by (simp add: e c)
  from 1 2 v 3 show ?thesis by simp
qed

text \<open>
  C3, as stated, fails. The day started at 30000; with one long unit bought at 2000 and
  the price at 1990 the equity is 29380, under the threshold 29400, and the call is
  rejected for daily loss. The price then rises to 2015, the equity is 29405, and the
  next call of the same day approves a size.
\<close>

theorem daily_loss_latch_counterexample:
  "snd (validate_order default_config day_risk (buy_ctx 1990 1970)
          (account_of 29390 (- 10) (1990 / 20)) (long_one (- 10))) = Inl daily_loss
   \<and> snd (validate_order default_config
            (fst (validate_order default_config day_risk (buy_ctx 1990 1970)
                    (account_of 29390 (- 10) (1990 / 20)) (long_one (- 10))))
            (buy_ctx 2015 1995) (account_of 29390 15 (2015 / 20)) (long_one 15))
       = Inr (5881 / 800)"
  by (simp add: validate_order_def check_circuit_breakers_def compute_position_size_def
        check_leverage_and_exposure_def aggregate_notional_def day_risk_def daily_loss_def
        default_config_def buy_ctx_def account_of_def long_one_def Let_def)

text \<open>
  C3, amended. With the daily start equity set, a call of \<open>validate_order\<close> returns the
  daily-loss rejection whenever the equity it is given is at or below
  \<open>daily_start * (1 - max_daily_loss)\<close>, whatever the order's parameters and the
  positions; a call given an equity above the threshold is not rejected for daily loss;
  the call leaves the daily start equity unchanged.
\<close>

theorem daily_loss_rejection:
  assumes "daily_start_equity rs = Some d"
  shows "(acc_equity acct \<le> d * (1 - max_daily_loss cfg)
            \<longrightarrow> snd (validate_order cfg rs ctx acct ps) = Inl daily_loss)
         \<and> (d * (1 - max_daily_loss cfg) < acc_equity acct
            \<longrightarrow> snd (validate_order cfg rs ctx acct ps) \<noteq> Inl daily_loss)
         \<and> daily_start_equity (fst (validate_order cfg rs ctx acct ps)) = Some d"
proof -
  let ?eq = "acc_equity acct"
  let ?peak = "max (case equity_peak rs of None \<Rightarrow> ?eq | Some p \<Rightarrow> if p = 0 then ?eq else p) ?eq"
  let ?rs2 = "rs\<lparr>equity_peak := Some ?peak\<rparr>"
  have cb: "check_circuit_breakers cfg rs ?eq =
     (if ?eq \<le> d * (1 - max_daily_loss cfg) then (?rs2, Inl daily_loss)
      else if ?eq \<le> ?peak * (1 - max_drawdown cfg)
      then (?rs2, Inl (RiskViolation ''Max drawdown breached; trading halted''))
      else (?rs2, Inr ()))"
    using assms by (simp add: check_circuit_breakers_def daily_loss_def Let_def)
  show ?thesis
  proof (cases "?eq \<le> d * (1 - max_daily_loss cfg)")
    case True
    with cb have "check_circuit_breakers cfg rs ?eq = (?rs2, Inl daily_loss)" by simp
    from validate_order_breakers_fail[OF this] True assms show ?thesis by simp
  next
    case False
    show ?thesis
    proof (cases "?eq \<le> ?peak * (1 - max_drawdown cfg)")
      case True
      with cb False have "check_circuit_breakers cfg rs ?eq
          = (?rs2, Inl (RiskViolation ''Max drawdown breached; trading halted''))" by simp
      from validate_order_breakers_fail[OF this] False assms show ?thesis
        by (simp add: daily_loss_def)
    next
      case True': False
      with cb False have "check_circuit_breakers cfg rs ?eq = (?rs2, Inr ())" by simp
      from validate_order_breakers_pass[OF this] False assms show ?thesis
        by (simp add: daily_loss_def check_leverage_and_exposure_def Let_def split: sum.splits)
    qed
  qed
qed


text \<open>The two calls of the counterexample, each against the day's start of 30000.\<close>

theorem daily_loss_rejection_witness:
  "daily_start_equity day_risk = Some 30000
   \<and> acc_equity (account_of 29390 (- 10) (1990 / 20)) \<le> 30000 * (1 - max_daily_loss default_config)
   \<and> snd (validate_order default_config day_risk (buy_ctx 1990 1970)
            (account_of 29390 (- 10) (1990 / 20)) (long_one (- 10))) = Inl daily_loss
   \<and> 30000 * (1 - max_daily_loss default_config) < acc_equity (account_of 29390 15 (2015 / 20))
   \<and> snd (validate_order default_config day_risk (buy_ctx 2015 1995)
            (account_of 29390 15 (2015 / 20)) (long_one 15)) \<noteq> Inl daily_loss
   \<and> daily_start_equity (fst (validate_order default_config day_risk (buy_ctx 1990 1970)
            (account_of 29390 (- 10) (1990 / 20)) (long_one (- 10)))) = Some 30000"
proof -
  have d: "daily_start_equity day_risk = Some 30000" by (simp add: day_risk_def)
  have l: "acc_equity (account_of 29390 (- 10) (1990 / 20))
             \<le> 30000 * (1 - max_daily_loss default_config)"
    by (simp add: account_of_def default_config_def)
  have g: "30000 * (1 - max_daily_loss default_config)
             < acc_equity (account_of 29390 15 (2015 / 20))"
    by (simp add: account_of_def default_config_def)
  from daily_loss_rejection[OF d, of "account_of 29390 (- 10) (1990 / 20)" default_config
         "buy_ctx 1990 1970" "long_one (- 10)"] l
  have 1: "snd (validate_order default_config day_risk (buy_ctx 1990 1970)
            (account_of 29390 (- 10) (1990 / 20)) (long_one (- 10))) = Inl daily_loss"
    and 3: "daily_start_equity (fst (validate_order default_config day_risk (buy_ctx 1990 1970)
            (account_of 29390 (- 10) (1990 / 20)) (long_one (- 10)))) = Some 30000"
    by blast+
  from daily_loss_rejection[OF d, of "account_of 29390 15 (2015 / 20)" default_config
         "buy_ctx 2015 1995" "long_one 15"] g
  have 2: "snd (validate_order default_config day_risk (buy_ctx 2015 1995)
            (account_of 29390 15 (2015 / 20)) (long_one 15)) \<noteq> Inl daily_loss"
    by blast
  from d l 1 g 2 3 show ?thesis by blast
qed

text \<open>
  C7, as stated, fails. With 1000 units of EURUSD held at 1.0 (own-price notional 1000)
  and a BUY of XAUUSD at 2000 sized 15 (notional 30000) on an equity of 30000, the own-price
  total 31000 is within the limit 60000, yet the order is rejected for global exposure:
  the source values the EURUSD position at the order's price 2000.
\<close>

theorem global_exposure_counterexample:
  "snd (validate_order default_config fresh_risk (buy_ctx 2000 1990) (account_of 30000 0 50)
          other_symbol) = Inl global_exposure
   \<and> approved_size default_config (buy_ctx 2000 1990) (account_of 30000 0 50) = 15
   \<and> \<not> (spec_aggregate_notional other_symbol + 2000 * 15
          > acc_equity (account_of 30000 0 50) * max_global_exposure default_config)"
  by (simp add: validate_order_def check_circuit_breakers_def compute_position_size_def
        check_leverage_and_exposure_def aggregate_notional_def fresh_risk_def global_exposure_def
        default_config_def buy_ctx_def account_of_def other_symbol_def approved_size_def
        spec_aggregate_notional_def Let_def)

lemma check_leverage_and_exposure_global:
  "check_leverage_and_exposure cfg sy prc sz acct ps = Inl global_exposure \<longleftrightarrow>
     leverage_limit cfg \<noteq> 0
     \<and> \<not> (acc_margin_used acct + prc * sz / leverage_limit cfg > acc_equity acct)
     \<and> \<not> (\<bar>(case map_of ps sy of None \<Rightarrow> 0 | Some p \<Rightarrow> size_pos p) * prc\<bar> + prc * sz
            > acc_equity acct * max_symbol_exposure cfg)
     \<and> aggregate_notional ps prc + prc * sz > acc_equity acct * max_global_exposure cfg"
  by (simp add: check_leverage_and_exposure_def global_exposure_def Let_def)

text \<open>
  C7, amended. \<open>validate_order\<close> rejects with the global-exposure reason exactly when
  the circuit breakers pass, the stop distance and the size are positive, the leverage
  limit is not zero, the margin and per-symbol checks pass, and the sum over all positions
  of \<open>|size * order price|\<close> plus the order's notional exceeds
  \<open>equity * max_global_exposure\<close>: every position is valued at the new order's price.
\<close>

theorem global_exposure_rejection:
  "snd (validate_order cfg rs ctx acct ps) = Inl global_exposure \<longleftrightarrow>
     snd (check_circuit_breakers cfg rs (acc_equity acct)) = Inr ()
     \<and> 0 < \<bar>ctx_price ctx - ctx_stop_loss ctx\<bar>
     \<and> 0 < approved_size cfg ctx acct
     \<and> leverage_limit cfg \<noteq> 0
     \<and> \<not> (acc_margin_used acct + ctx_price ctx * approved_size cfg ctx acct / leverage_limit cfg
            > acc_equity acct)
     \<and> \<not> (\<bar>(case map_of ps (ctx_symbol ctx) of None \<Rightarrow> 0 | Some p \<Rightarrow> size_pos p)
              * ctx_price ctx\<bar>
            + ctx_price ctx * approved_size cfg ctx acct
            > acc_equity acct * max_symbol_exposure cfg)
     \<and> aggregate_notional ps (ctx_price ctx) + ctx_price ctx * approved_size cfg ctx acct
         > acc_equity acct * max_global_exposure cfg"
proof -
  from validate_order_cases[of cfg rs acct] show ?thesis
  proof (elim disjE exE)
    fix rs' e
    assume c: "check_circuit_breakers cfg rs (acc_equity acct) = (rs', Inl e)"
    have "e \<noteq> global_exposure"
      using c by (auto simp: check_circuit_breakers_def global_exposure_def Let_def
                       split: if_splits)
    with c show ?thesis
      by (simp add: validate_order_breakers_fail)
  next
    fix rs'
    assume c: "check_circuit_breakers cfg rs (acc_equity acct) = (rs', Inr ())"
    have g: "global_exposure \<noteq> RiskViolation ''Stop distance must be positive''"
      "global_exposure \<noteq> RiskViolation ''Computed size is zero; reject order''"
      by (simp_all add: global_exposure_def)
    show ?thesis
      unfolding validate_order_breakers_pass[OF c] approved_size_def[symmetric]
      using g check_leverage_and_exposure_global[of cfg "ctx_symbol ctx" "ctx_price ctx"
              "approved_size cfg ctx acct" acct ps]
      by (auto simp: c split: sum.splits)
  qed
qed


text \<open>The rejection of the counterexample, and the scenario order passing on no position.\<close>

theorem global_exposure_rejection_witness:
  "snd (validate_order default_config fresh_risk (buy_ctx 2000 1990) (account_of 30000 0 50)
          other_symbol) = Inl global_exposure
   \<and> aggregate_notional other_symbol (ctx_price (buy_ctx 2000 1990))
         + ctx_price (buy_ctx 2000 1990)
             * approved_size default_config (buy_ctx 2000 1990) (account_of 30000 0 50)
       > acc_equity (account_of 30000 0 50) * max_global_exposure default_config
   \<and> snd (validate_order default_config fresh_risk (buy_ctx 2000 1990) (account_of 30000 0 0) [])
       \<noteq> Inl global_exposure"
proof -
  have 1: "snd (validate_order default_config fresh_risk (buy_ctx 2000 1990)
                  (account_of 30000 0 50) other_symbol) = Inl global_exposure"
    by (simp add: validate_order_def check_circuit_breakers_def compute_position_size_def
          check_leverage_and_exposure_def aggregate_notional_def fresh_risk_def
          global_exposure_def default_config_def buy_ctx_def account_of_def other_symbol_def
          Let_def)
  have n: "\<not> (aggregate_notional [] (ctx_price (buy_ctx 2000 1990))
         + ctx_price (buy_ctx 2000 1990)
             * approved_size default_config (buy_ctx 2000 1990) (account_of 30000 0 0)
       > acc_equity (account_of 30000 0 0) * max_global_exposure default_config)"
    by (simp add: aggregate_notional_def approved_size_def default_config_def buy_ctx_def
          account_of_def)
  from 1 global_exposure_rejection[of default_config fresh_risk "buy_ctx 2000 1990"
         "account_of 30000 0 50" other_symbol]
  have 2: "aggregate_notional other_symbol (ctx_price (buy_ctx 2000 1990))
         + ctx_price (buy_ctx 2000 1990)
             * approved_size default_config (buy_ctx 2000 1990) (account_of 30000 0 50)
       > acc_equity (account_of 30000 0 50) * max_global_exposure default_config"
    by blast
  from n global_exposure_rejection[of default_config fresh_risk "buy_ctx 2000 1990"
         "account_of 30000 0 0" "[]"]
  have 3: "snd (validate_order default_config fresh_risk (buy_ctx 2000 1990)
                  (account_of 30000 0 0) []) \<noteq> Inl global_exposure"
    by blast
  from 1 2 3 show ?thesis by blast
qed

section \<open>Properties of the order handler\<close>

lemma execute_gates:
  assumes "signal decision \<noteq> ''HOLD''" and "dec_stop_loss decision = Some sl"
  shows "execute cfg fetch now_ms rs b tick decision acct ps =
     (if spread tick > spread_limit cfg then Inr (rs, b, failed ''Spread too wide'')
      else if volatility tick > volatility_limit cfg
      then Inr (rs, b, failed ''Volatility too high'')
      else if signal decision = ''BUY'' \<and> sl \<ge> ask tick
      then Inr (rs, b, failed ''Stop-loss must be below entry for BUY'')
      else if signal decision \<noteq> ''BUY'' \<and> sl \<le> bid tick
      then Inr (rs, b, failed ''Stop-loss must be above entry for SELL'')
      else
        (case validate_order cfg rs (entry_ctx tick decision sl) acct ps of
           (rs', Inl (RiskViolation msg)) \<Rightarrow> Inr (rs', b, failed msg)
         | (rs', Inl e) \<Rightarrow> Inl e
         | (rs', Inr sz) \<Rightarrow>
             (case submit_order cfg fetch now_ms b
                     \<lparr> symbol = tick_symbol tick,
                       side = (if signal decision = ''BUY'' then ''BUY'' else ''SELL''),
                       size_req = sz,
                       price = (if signal decision = ''BUY'' then ask tick else bid tick),
                       stop_loss = sl, take_profit = dec_take_profit decision,
                       client_id = magic_number cfg \<rparr> of
                Inl e \<Rightarrow> Inl e
              | Inr (b', result) \<Rightarrow> Inr (rs', b', result))))"
  using assms by (simp add: execute_def entry_ctx_def Let_def)

lemma submit_order_Inl:
  assumes "submit_order cfg fetch now_ms b order = Inl e"
  shows "fetch = Inl e \<or> e = ZeroDivisionError"
proof -
  have m: "\<And>mid b3. mark_positions cfg mid b3 = Inl e \<Longrightarrow> e = ZeroDivisionError"
  proof -
    fix mid b3
    have l: "\<And>ps u m. mark_loop cfg mid ps u m = Inl e \<Longrightarrow> e = ZeroDivisionError"
    proof -
      fix ps u m
      show "mark_loop cfg mid ps u m = Inl e \<Longrightarrow> e = ZeroDivisionError"
      proof (induction ps arbitrary: u m)
        case Nil
        then show ?case by simp
      next
        case (Cons a ps)
        obtain k p where "a = (k, p)" by (cases a)
        with Cons show ?case
          by (auto simp: Let_def split: if_splits sum.splits)
      qed
    qed
    assume "mark_positions cfg mid b3 = Inl e"
    then show "e = ZeroDivisionError"
      by (auto simp: mark_positions_def split: sum.splits dest: l)
  qed
  from assms show ?thesis
    by (auto simp: submit_order_def lookup_mid_def Let_def
             split: if_splits sum.splits option.splits prod.splits dest: m)
qed


text \<open>
  C8, as stated, fails in its last part: exceptions do leave \<open>execute\<close>. With a zero
  leverage limit the margin check of the risk manager divides by zero, which is not a
  \<open>RiskViolation\<close> and is not caught; and with no known price and an empty feed the
  \<open>RuntimeError\<close> of the broker's price fetch passes through.
\<close>

theorem execute_escape_counterexample:
  "signal (decide ''BUY'' 1990) \<noteq> ''HOLD''
   \<and> dec_stop_loss (decide ''BUY'' 1990) = Some 1990
   \<and> execute (default_config\<lparr>leverage_limit := 0\<rparr>) no_feed 0 fresh_risk scenario_broker
         (tick_2000 (2 / 10) 0) (decide ''BUY'' 1990) (account_of 30000 0 0) []
       = Inl ZeroDivisionError
   \<and> execute default_config no_feed 0 fresh_risk flat_broker
         (tick_2000 (2 / 10) 0) (decide ''BUY'' 1990) (account_of 30000 0 0) []
       = Inl (RuntimeError ''Empty price history from yfinance'')"
  by (simp add: execute_def validate_order_def check_circuit_breakers_def
        compute_position_size_def check_leverage_and_exposure_def aggregate_notional_def
        submit_order_def lookup_mid_def fresh_risk_def default_config_def tick_2000_def
        decide_def account_of_def flat_broker_def no_feed_def Let_def)

text \<open>
  C8, amended. For a non-HOLD decision with a stop-loss, \<open>execute\<close> applies its gates in
  order: spread over the limit, then volatility over the limit, then the stop side (a BUY
  needs stop below the ask, anything else stop above the bid), then risk validation; the
  first failure is returned as a failed result with that gate's reason and the ledger
  untouched, and a \<open>RiskViolation\<close> of the risk manager never leaves \<open>execute\<close> as an
  exception. Other exceptions are not caught.
\<close>

theorem execute_gate_order:
  assumes "signal decision \<noteq> ''HOLD''" and "dec_stop_loss decision = Some sl"
  shows
    "(spread tick > spread_limit cfg
        \<longrightarrow> execute cfg fetch now_ms rs b tick decision acct ps
              = Inr (rs, b, failed ''Spread too wide''))
     \<and> (\<not> spread tick > spread_limit cfg \<and> volatility tick > volatility_limit cfg
        \<longrightarrow> execute cfg fetch now_ms rs b tick decision acct ps
              = Inr (rs, b, failed ''Volatility too high''))
     \<and> (\<not> spread tick > spread_limit cfg \<and> \<not> volatility tick > volatility_limit cfg
          \<and> signal decision = ''BUY'' \<and> sl \<ge> ask tick
        \<longrightarrow> execute cfg fetch now_ms rs b tick decision acct ps
              = Inr (rs, b, failed ''Stop-loss must be below entry for BUY''))
     \<and> (\<not> spread tick > spread_limit cfg \<and> \<not> volatility tick > volatility_limit cfg
          \<and> signal decision \<noteq> ''BUY'' \<and> sl \<le> bid tick
        \<longrightarrow> execute cfg fetch now_ms rs b tick decision acct ps
              = Inr (rs, b, failed ''Stop-loss must be above entry for SELL''))
     \<and> (\<forall>rs' msg. gates_pass cfg tick decision sl
          \<and> validate_order cfg rs (entry_ctx tick decision sl) acct ps
              = (rs', Inl (RiskViolation msg))
        \<longrightarrow> execute cfg fetch now_ms rs b tick decision acct ps = Inr (rs', b, failed msg))
     \<and> ((\<forall>m. fetch \<noteq> Inl (RiskViolation m))
        \<longrightarrow> (\<forall>msg. execute cfg fetch now_ms rs b tick decision acct ps
                      \<noteq> Inl (RiskViolation msg)))"
proof (intro conjI impI allI)
  assume "spread tick > spread_limit cfg"
  then show "execute cfg fetch now_ms rs b tick decision acct ps
              = Inr (rs, b, failed ''Spread too wide'')"
    by (simp add: execute_gates[OF assms])
next
  assume "\<not> spread tick > spread_limit cfg \<and> volatility tick > volatility_limit cfg"
  then show "execute cfg fetch now_ms rs b tick decision acct ps
              = Inr (rs, b, failed ''Volatility too high'')"
    by (simp add: execute_gates[OF assms])
next
  assume "\<not> spread tick > spread_limit cfg \<and> \<not> volatility tick > volatility_limit cfg
          \<and> signal decision = ''BUY'' \<and> sl \<ge> ask tick"
  then show "execute cfg fetch now_ms rs b tick decision acct ps
              = Inr (rs, b, failed ''Stop-loss must be below entry for BUY'')"
    by (simp add: execute_gates[OF assms])
next
  assume "\<not> spread tick > spread_limit cfg \<and> \<not> volatility tick > volatility_limit cfg
          \<and> signal decision \<noteq> ''BUY'' \<and> sl \<le> bid tick"
  then show "execute cfg fetch now_ms rs b tick decision acct ps
              = Inr (rs, b, failed ''Stop-loss must be above entry for SELL'')"
    by (simp add: execute_gates[OF assms])
next
  fix rs' msg
  assume "gates_pass cfg tick decision sl
          \<and> validate_order cfg rs (entry_ctx tick decision sl) acct ps
              = (rs', Inl (RiskViolation msg))"
  then show "execute cfg fetch now_ms rs b tick decision acct ps = Inr (rs', b, failed msg)"
    by (auto simp: execute_gates[OF assms] gates_pass_def)
next
  fix msg
  assume f: "\<forall>m. fetch \<noteq> Inl (RiskViolation m)"
  show "execute cfg fetch now_ms rs b tick decision acct ps \<noteq> Inl (RiskViolation msg)"
  proof
    assume e: "execute cfg fetch now_ms rs b tick decision acct ps = Inl (RiskViolation msg)"
    then obtain order where "submit_order cfg fetch now_ms b order = Inl (RiskViolation msg)"
      unfolding execute_gates[OF assms]
      by (auto split: if_splits prod.splits sum.splits error.splits)
    from submit_order_Inl[OF this] f show False by auto
  qed
qed


text \<open>
  One quote per gate: both spread and volatility too high (the spread wins), volatility
  too high, a BUY stop above the ask, a SELL stop below the bid, and a daily-loss
  rejection of the risk manager returned as a result.
\<close>

theorem execute_gate_order_witness:
  "execute default_config no_feed 0 fresh_risk scenario_broker (tick_2000 1 (5 / 100))
       (decide ''BUY'' 2001) (account_of 30000 0 0) []
     = Inr (fresh_risk, scenario_broker, failed ''Spread too wide'')
   \<and> execute default_config no_feed 0 fresh_risk scenario_broker (tick_2000 (2 / 10) (5 / 100))
       (decide ''BUY'' 2001) (account_of 30000 0 0) []
     = Inr (fresh_risk, scenario_broker, failed ''Volatility too high'')
   \<and> execute default_config no_feed 0 fresh_risk scenario_broker (tick_2000 (2 / 10) 0)
       (decide ''BUY'' 2001) (account_of 30000 0 0) []
     = Inr (fresh_risk, scenario_broker, failed ''Stop-loss must be below entry for BUY'')
   \<and> execute default_config no_feed 0 fresh_risk scenario_broker (tick_2000 (2 / 10) 0)
       (decide ''SELL'' 1999) (account_of 30000 0 0) []
     = Inr (fresh_risk, scenario_broker, failed ''Stop-loss must be above entry for SELL'')
   \<and> execute default_config no_feed 0 day_risk scenario_broker (tick_2000 (2 / 10) 0)
       (decide ''BUY'' 1990) (account_of 29390 (- 10) (1990 / 20)) (long_one (- 10))
     = Inr (day_risk, scenario_broker, failed ''Daily loss limit reached; trading halted'')
   \<and> (\<forall>msg. execute default_config no_feed 0 fresh_risk scenario_broker (tick_2000 (2 / 10) 0)
       (decide ''BUY'' 1990) (account_of 30000 0 0) [] \<noteq> Inl (RiskViolation msg))"
proof -
  have h: "\<And>sg sl. sg \<noteq> ''HOLD'' \<Longrightarrow> signal (decide sg sl) \<noteq> ''HOLD''"
    "\<And>sg sl. dec_stop_loss (decide sg sl) = Some sl"
    "\<And>sg sl. signal (decide sg sl) = sg"
    by (simp_all add: decide_def)
  have t: "\<And>s v. spread (tick_2000 s v) = s" "\<And>s v. volatility (tick_2000 s v) = v"
    "\<And>s v. ask (tick_2000 s v) = 2000 + s / 2" "\<And>s v. bid (tick_2000 s v) = 2000 - s / 2"
    by (simp_all add: tick_2000_def)
  have c: "spread_limit default_config = 1 / 2" "volatility_limit default_config = 2 / 100"
    by (simp_all add: default_config_def)
  have hb: "signal (decide ''BUY'' 2001) \<noteq> ''HOLD''" "signal (decide ''SELL'' 1999) \<noteq> ''HOLD''"
    "signal (decide ''BUY'' 1990) \<noteq> ''HOLD''"
    by (simp_all add: decide_def)
  from execute_gate_order[OF hb(1) h(2), where tick = "tick_2000 1 (5 / 100)" and cfg = default_config
         and fetch = no_feed and now_ms = 0 and rs = fresh_risk and b = scenario_broker
         and acct = "account_of 30000 0 0" and ps = "[]"]
  have 1: "execute default_config no_feed 0 fresh_risk scenario_broker (tick_2000 1 (5 / 100))
       (decide ''BUY'' 2001) (account_of 30000 0 0) []
     = Inr (fresh_risk, scenario_broker, failed ''Spread too wide'')"
    by (simp add: t c)
  from execute_gate_order[OF hb(1) h(2), where tick = "tick_2000 (2 / 10) (5 / 100)" and cfg = default_config
         and fetch = no_feed and now_ms = 0 and rs = fresh_risk and b = scenario_broker
         and acct = "account_of 30000 0 0" and ps = "[]"]
  have 2: "execute default_config no_feed 0 fresh_risk scenario_broker
       (tick_2000 (2 / 10) (5 / 100)) (decide ''BUY'' 2001) (account_of 30000 0 0) []
     = Inr (fresh_risk, scenario_broker, failed ''Volatility too high'')"
    by (simp add: t c)
  from execute_gate_order[OF hb(1) h(2), where tick = "tick_2000 (2 / 10) 0" and cfg = default_config
         and fetch = no_feed and now_ms = 0 and rs = fresh_risk and b = scenario_broker
         and acct = "account_of 30000 0 0" and ps = "[]"]
  have 3: "execute default_config no_feed 0 fresh_risk scenario_broker (tick_2000 (2 / 10) 0)
       (decide ''BUY'' 2001) (account_of 30000 0 0) []
     = Inr (fresh_risk, scenario_broker, failed ''Stop-loss must be below entry for BUY'')"
    by (simp add: t c h(3))
  from execute_gate_order[OF hb(2) h(2), where tick = "tick_2000 (2 / 10) 0" and cfg = default_config
         and fetch = no_feed and now_ms = 0 and rs = fresh_risk and b = scenario_broker
         and acct = "account_of 30000 0 0" and ps = "[]"]
  have 4: "execute default_config no_feed 0 fresh_risk scenario_broker (tick_2000 (2 / 10) 0)
       (decide ''SELL'' 1999) (account_of 30000 0 0) []
     = Inr (fresh_risk, scenario_broker, failed ''Stop-loss must be above entry for SELL'')"
    by (simp add: t c h(3))
  have g: "gates_pass default_config (tick_2000 (2 / 10) 0) (decide ''BUY'' 1990) 1990"
    by (simp add: gates_pass_def t c h(3))
  have v: "validate_order default_config day_risk
             (entry_ctx (tick_2000 (2 / 10) 0) (decide ''BUY'' 1990) 1990)
             (account_of 29390 (- 10) (1990 / 20)) (long_one (- 10))
           = (day_risk, Inl (RiskViolation ''Daily loss limit reached; trading halted''))"
    by (simp add: validate_order_def check_circuit_breakers_def day_risk_def
          default_config_def account_of_def Let_def)
  from execute_gate_order[OF hb(3) h(2), where tick = "tick_2000 (2 / 10) 0" and cfg = default_config
         and fetch = no_feed and now_ms = 0 and rs = day_risk and b = scenario_broker
         and acct = "account_of 29390 (- 10) (1990 / 20)" and ps = "long_one (- 10)"] g v
  have 5: "execute default_config no_feed 0 day_risk scenario_broker (tick_2000 (2 / 10) 0)
       (decide ''BUY'' 1990) (account_of 29390 (- 10) (1990 / 20)) (long_one (- 10))
     = Inr (day_risk, scenario_broker, failed ''Daily loss limit reached; trading halted'')"
    by blast
  have nf: "\<forall>m. no_feed \<noteq> Inl (RiskViolation m)" by (simp add: no_feed_def)
  from execute_gate_order[OF hb(3) h(2), where tick = "tick_2000 (2 / 10) 0" and cfg = default_config
         and fetch = no_feed and now_ms = 0 and rs = fresh_risk and b = scenario_broker
         and acct = "account_of 30000 0 0" and ps = "[]"] nf
  have 6: "\<forall>msg. execute default_config no_feed 0 fresh_risk scenario_broker
       (tick_2000 (2 / 10) 0) (decide ''BUY'' 1990) (account_of 30000 0 0) []
       \<noteq> Inl (RiskViolation msg)"
    by blast
  from 1 2 3 4 5 6 show ?thesis by blast
qed


section \<open>Properties of the state store\<close>

text \<open>\<open>persist\<close> always succeeds: the canonical path holds the dumped text, the temp file is gone.\<close>

lemma persist_Inr:
  "persist dumps with_suffix sm fs s
     = Inr ((fs(with_suffix (path sm) ''.tmp'' := None))(path sm \<mapsto> Text (dumps s)))"
  by (simp add: persist_def replace_file_def Let_def)

text \<open>
  \<open>load\<close> after \<open>persist\<close> is \<open>json.loads\<close> of \<open>json.dumps\<close>, whatever the codec does:
  the snapshot comes back equal exactly as far as the codec returns it unchanged.
\<close>

lemma load_after_persist:
  "\<exists>fs'. persist dumps with_suffix sm fs s = Inr fs'
         \<and> load loads today sm fs' =
             (case loads (dumps s) of
                Inr v \<Rightarrow> Inr v
              | Inl JSONDecodeError \<Rightarrow> Inr (default_state sm today)
              | Inl e \<Rightarrow> Inl e)"
  unfolding persist_Inr by (simp add: load_def)

lemma load_absent:
  "fs (path sm) = None \<Longrightarrow> load loads today sm fs = Inr (default_state sm today)"
  by (simp add: load_def)

lemma load_unparsable:
  "fs (path sm) = Some (Text content) \<Longrightarrow> loads content = Inl JSONDecodeError
     \<Longrightarrow> load loads today sm fs = Inr (default_state sm today)"
  by (simp add: load_def)

lemma default_state_fields:
  "json_get (default_state sm today) ''balance'' = Some (JNum (sm_initial_balance sm))"
  "json_get (default_state sm today) ''equity'' = Some (JNum (sm_initial_balance sm))"
  "json_get (default_state sm today) ''positions'' = Some (JObj [])"
  "json_get (default_state sm today) ''margin_used'' = Some (JNum 0)"
  "json_get (default_state sm today) ''trading_day'' = Some (JStr today)"
  by (simp_all add: json_get_def default_state_def)

text \<open>
  C9. The source departs from the claim on a corrupted file. \<open>load\<close> reads the file
  inside its \<open>try\<close> and means corruption to be non-fatal, but it catches only
  \<open>json.JSONDecodeError\<close>: on a state file whose bytes are not UTF-8, \<open>read_text\<close> raises
  \<open>UnicodeDecodeError\<close> and \<open>load\<close> raises with it instead of returning the default
  snapshot. On an absent file it does return the default snapshot.
\<close>

theorem load_undecodable_raises:
  "load loads today state_file (no_files(''state.json'' \<mapsto> Undecodable))
     = Inl (OtherError ''UnicodeDecodeError'')
   \<and> load loads today state_file no_files = Inr (default_state state_file today)"
  by (simp add: load_def state_file_def no_files_def)

end
